theory Spec2Isabelle
  imports Main "HOL-Library.AList" "HOL-Library.Sublist"
begin

unbundle bit_operations_syntax

section \<open>Strings, bytes and runes\<close>

text \<open>
  A Go string is a sequence of bytes; it is modelled by \<^typ>\<open>string\<close>, whose characters
  are bytes. \<open>len(name)\<close> is \<^const>\<open>length\<close> and \<open>name[i]\<close> is the byte at index \<open>i\<close>.
  A \<open>rune\<close> is a code point, modelled by a natural number.
\<close>

type_synonym rune = nat

definition RuneError :: rune where
  "RuneError = 65533"

text \<open>
  \<open>utf8.first\<close> and \<open>utf8.acceptRanges\<close> of the Go runtime, for a leading byte that is not
  ASCII: the length of the sequence and the range accepted for its second byte.
  \<open>None\<close> is the table's invalid entry.
\<close>

definition acceptRange :: "nat \<Rightarrow> (nat \<times> nat \<times> nat) option" where
  "acceptRange s0 =
     (if s0 < 194 then None
      else if s0 < 224 then Some (2, 128, 191)
      else if s0 = 224 then Some (3, 160, 191)
      else if s0 = 237 then Some (3, 128, 159)
      else if s0 < 240 then Some (3, 128, 191)
      else if s0 = 240 then Some (4, 144, 191)
      else if s0 < 244 then Some (4, 128, 191)
      else if s0 = 244 then Some (4, 128, 143)
      else None)"

text \<open>
  \<open>utf8.DecodeRuneInString\<close>: the first rune of the string and its width in bytes.
  An invalid sequence decodes to \<^const>\<open>RuneError\<close> with width 1.
\<close>

fun DecodeRuneInString :: "string \<Rightarrow> rune \<times> nat" where
  "DecodeRuneInString [] = (RuneError, 0)"
| "DecodeRuneInString (c0 # cs) =
     (let s0 = of_char c0 in
      if s0 < 128 then (s0, 1)
      else case acceptRange s0 of
        None \<Rightarrow> (RuneError, 1)
      | Some (sz, lo, hi) \<Rightarrow>
          if length (c0 # cs) < sz then (RuneError, 1)
          else let s1 = of_char (cs ! 0) in
            if s1 < lo \<or> hi < s1 then (RuneError, 1)
            else if sz \<le> 2 then (push_bit 6 (s0 AND 31) OR (s1 AND 63), 2)
            else let s2 = of_char (cs ! 1) in
              if s2 < 128 \<or> 191 < s2 then (RuneError, 1)
              else if sz \<le> 3
                then (push_bit 12 (s0 AND 15) OR push_bit 6 (s1 AND 63) OR (s2 AND 63), 3)
              else let s3 = of_char (cs ! 2) in
                if s3 < 128 \<or> 191 < s3 then (RuneError, 1)
                else (push_bit 18 (s0 AND 7) OR push_bit 12 (s1 AND 63)
                        OR push_bit 6 (s2 AND 63) OR (s3 AND 63), 4))"

text \<open>The runes that \<open>for _, c := range name\<close> visits, in order.\<close>

fun range_runes :: "string \<Rightarrow> rune list" where
  "range_runes [] = []"
| "range_runes (c # cs) =
     (case DecodeRuneInString (c # cs) of (r, w) \<Rightarrow> r # range_runes (drop (w - 1) cs))"

text \<open>
  \<open>strings.ToLower\<close>: a string of ASCII bytes has its letters \<open>A\<close> to \<open>Z\<close> shifted by
  \<open>'a' - 'A'\<close>; any other string goes through the Unicode case tables, which are a
  parameter (\<open>unicode_lower\<close>) here.
\<close>

definition ascii_lower :: "char \<Rightarrow> char" where
  "ascii_lower c = (if 65 \<le> (of_char c :: nat) \<and> (of_char c :: nat) \<le> 90
                    then char_of ((of_char c :: nat) + 32) else c)"

definition ToLower :: "(string \<Rightarrow> string) \<Rightarrow> string \<Rightarrow> string" where
  "ToLower unicode_lower s =
     (if list_all (\<lambda>c. (of_char c :: nat) < 128) s then map ascii_lower s
      else unicode_lower s)"

section \<open>Index names\<close>

definition isAlphanumeric :: "rune \<Rightarrow> bool" where
  "isAlphanumeric c \<longleftrightarrow> (97 \<le> c \<and> c \<le> 122) \<or> (48 \<le> c \<and> c \<le> 57)"

text \<open>The loop of \<open>isValidIndexName\<close> over the runes of the name; 45 is \<open>'-'\<close>.\<close>

fun name_runes_ok :: "rune list \<Rightarrow> bool" where
  "name_runes_ok [] = True"
| "name_runes_ok (c # cs) =
     (if \<not> isAlphanumeric c \<and> c \<noteq> 45 then False else name_runes_ok cs)"

definition isValidIndexName :: "(string \<Rightarrow> string) \<Rightarrow> string \<Rightarrow> bool" where
  "isValidIndexName unicode_lower name =
     (if length name = 0 \<or> length name > 63 then False
      else if \<not> isAlphanumeric (of_char (name ! 0))
              \<or> \<not> isAlphanumeric (of_char (name ! (length name - 1))) then False
      else if \<not> name_runes_ok (range_runes name) then False
      else name = ToLower unicode_lower name)"

text \<open>
  The naming rule in the words of the specification: 1 to 63 characters, each a lowercase
  letter, a digit or a hyphen, the first and the last one not a hyphen.
\<close>

definition lower_alnum :: "char \<Rightarrow> bool" where
  "lower_alnum c \<longleftrightarrow> c \<in> set ''abcdefghijklmnopqrstuvwxyz0123456789''"

definition index_name_rule :: "string \<Rightarrow> bool" where
  "index_name_rule name \<longleftrightarrow>
     1 \<le> length name \<and> length name \<le> 63 \<and>
     list_all (\<lambda>c. lower_alnum c \<or> c = CHR ''-'') name \<and>
     lower_alnum (hd name) \<and> lower_alnum (last name)"

section \<open>Errors and responses\<close>

text \<open>
  A Go \<open>error\<close> is modelled by its message. \<open>fmt.Errorf("prefix: %w", err)\<close> puts a prefix
  before the message of the wrapped error.
\<close>

type_synonym error = string

definition Errorf :: "string \<Rightarrow> error \<Rightarrow> error" where
  "Errorf pfx err = pfx @ '': '' @ err"

text \<open>
  The API errors of the handlers: \<open>errors.NewBadRequestError(msg, err)\<close> and its siblings
  take a message and the underlying error (\<open>None\<close> for \<open>nil\<close>).
\<close>

datatype api_error =
    BadRequestError string "error option"
  | NotFoundError string "error option"
  | ConflictError string "error option"
  | InternalServerError string "error option"

text \<open>
  What a handler writes: \<open>w.RespondWithError(e)\<close>, or \<open>RespondWithJSON(w, status, data)\<close>
  with \<open>data = api.NewResponse(payload, message, false)\<close>.
\<close>

datatype 'a response =
    RespondWithError api_error
  | RespondWithJSON nat 'a string

section \<open>Data model\<close>

type_synonym time = nat

record RAGIndex =
  Name :: string
  Description :: string
  CreatedAt :: time

record RAGDocument =
  doc_Name :: string
  doc_Size :: int
  doc_LastModified :: time
  doc_Status :: string

record CreateRAGIndexRequest =
  req_Name :: string
  req_Description :: string

record UpdateRAGIndexRequest =
  upd_Description :: string

record UpdateStatusRequest =
  st_Status :: string
  st_ErrorMsg :: string

text \<open>\<open>minio.ObjectInfo\<close> of the client wrapper.\<close>

record ObjectInfo =
  obj_Name :: string
  obj_Size :: int
  obj_ContentType :: string
  obj_LastModified :: time

text \<open>\<open>database.DocumentStatus\<close>, with the fields the handlers set and read.\<close>

record DocumentStatus =
  ID :: string
  IndexName :: string
  Filename :: string
  Status :: string
  ErrorMsg :: string

text \<open>The uploaded part of a multipart form: \<open>multipart.FileHeader\<close> and the file's bytes.\<close>

record FileHeader =
  fh_Filename :: string
  fh_Size :: int
  fh_ContentType :: string
  fh_content :: string

definition metadataFile :: string where
  "metadataFile = ''.metadata.json''"

definition supportedExtensions :: "(string \<times> bool) list" where
  "supportedExtensions =
     [(''.txt'', True), (''.md'', True), (''.json'', True),
      (''.csv'', True), (''.docx'', True), (''.pdf'', True)]"

text \<open>Reading a Go \<open>map[string]bool\<close>: a missing key reads as \<open>false\<close>.\<close>

definition supported :: "string \<Rightarrow> bool" where
  "supported ext = (case map_of supportedExtensions ext of Some b \<Rightarrow> b | None \<Rightarrow> False)"

text \<open>
  \<open>filepath.Ext\<close>: the suffix that starts at the last dot of the last path element, empty
  when there is none. The scan runs from the end of the path and stops at a separator.
\<close>

fun Ext_scan :: "string \<Rightarrow> string \<Rightarrow> string" where
  "Ext_scan [] rest = ''''"
| "Ext_scan (c # front) rest =
     (if c = CHR ''/'' then ''''
      else if c = CHR ''.'' then c # rest
      else Ext_scan front (c # rest))"

definition Ext :: "string \<Rightarrow> string" where
  "Ext path = Ext_scan (rev path) []"

section \<open>The environment: object store, status store, faults\<close>

text \<open>
  The object store holds one list of objects per bucket; both levels are association
  lists, in the order of creation. The status store is the table of
  \<^typ>\<open>DocumentStatus\<close> rows. Every call to a store may fail: the world carries the
  outcomes of the calls to come, \<open>Some e\<close> for a call that fails with the error \<open>e\<close> and
  \<open>None\<close> for a call that goes through; once the list is used up no call fails.
\<close>

record stored_object =
  content :: string
  content_size :: int
  content_type :: string
  last_modified :: time

record world =
  buckets :: "(string \<times> (string \<times> stored_object) list) list"
  notifications :: "(string \<times> string) list"
  status_rows :: "DocumentStatus list"
  faults :: "error option list"
  clock :: time

definition next_fault :: "world \<Rightarrow> error option \<times> world" where
  "next_fault w = (case faults w of [] \<Rightarrow> (None, w) | f # fs \<Rightarrow> (f, w\<lparr>faults := fs\<rparr>))"

definition bucket_exists :: "world \<Rightarrow> string \<Rightarrow> bool" where
  "bucket_exists w b \<longleftrightarrow> map_of (buckets w) b \<noteq> None"

definition lookup_object :: "world \<Rightarrow> string \<Rightarrow> string \<Rightarrow> stored_object option" where
  "lookup_object w b k = (case map_of (buckets w) b of None \<Rightarrow> None | Some objs \<Rightarrow> map_of objs k)"

subsection \<open>The object store's SDK\<close>

text \<open>
  The calls of the MinIO SDK that the client wrapper makes. A call that takes effect does
  so only when it does not fail. Removing an object that is not there succeeds; removing
  a bucket that still holds objects fails; every call on a missing bucket fails, except
  the existence check.
\<close>

definition sdk_BucketExists :: "world \<Rightarrow> string \<Rightarrow> (error + bool) \<times> world" where
  "sdk_BucketExists w b =
     (case next_fault w of
        (Some e, w') \<Rightarrow> (Inl e, w')
      | (None, w') \<Rightarrow> (Inr (bucket_exists w' b), w'))"

definition sdk_MakeBucket :: "world \<Rightarrow> string \<Rightarrow> error option \<times> world" where
  "sdk_MakeBucket w b =
     (case next_fault w of
        (Some e, w') \<Rightarrow> (Some e, w')
      | (None, w') \<Rightarrow>
          if bucket_exists w' b then (Some ''BucketAlreadyOwnedByYou'', w')
          else (None, w'\<lparr>buckets := buckets w' @ [(b, [])]\<rparr>))"

definition sdk_ListBuckets :: "world \<Rightarrow> (error + string list) \<times> world" where
  "sdk_ListBuckets w =
     (case next_fault w of
        (Some e, w') \<Rightarrow> (Inl e, w')
      | (None, w') \<Rightarrow> (Inr (map fst (buckets w')), w'))"

definition object_info :: "string \<times> stored_object \<Rightarrow> ObjectInfo" where
  "object_info kv =
     \<lparr>obj_Name = fst kv, obj_Size = content_size (snd kv),
      obj_ContentType = content_type (snd kv), obj_LastModified = last_modified (snd kv)\<rparr>"

text \<open>
  \<open>ListObjects\<close> returns a channel; the model returns what the channel delivers, each
  item an object or an error.
\<close>

definition sdk_ListObjects ::
  "world \<Rightarrow> string \<Rightarrow> string \<Rightarrow> (error + ObjectInfo) list \<times> world" where
  "sdk_ListObjects w b pfx =
     (case next_fault w of
        (Some e, w') \<Rightarrow> ([Inl e], w')
      | (None, w') \<Rightarrow>
          (case map_of (buckets w') b of
             None \<Rightarrow> ([Inl ''NoSuchBucket''], w')
           | Some objs \<Rightarrow>
               (map (\<lambda>kv. Inr (object_info kv))
                  (filter (\<lambda>kv. take (length pfx) (fst kv) = pfx) objs), w')))"

definition sdk_RemoveObject :: "world \<Rightarrow> string \<Rightarrow> string \<Rightarrow> error option \<times> world" where
  "sdk_RemoveObject w b k =
     (case next_fault w of
        (Some e, w') \<Rightarrow> (Some e, w')
      | (None, w') \<Rightarrow>
          (case map_of (buckets w') b of
             None \<Rightarrow> (Some ''NoSuchBucket'', w')
           | Some objs \<Rightarrow>
               (None, w'\<lparr>buckets := AList.update b (AList.delete k objs) (buckets w')\<rparr>)))"

definition sdk_RemoveBucket :: "world \<Rightarrow> string \<Rightarrow> error option \<times> world" where
  "sdk_RemoveBucket w b =
     (case next_fault w of
        (Some e, w') \<Rightarrow> (Some e, w')
      | (None, w') \<Rightarrow>
          (case map_of (buckets w') b of
             None \<Rightarrow> (Some ''NoSuchBucket'', w')
           | Some objs \<Rightarrow>
               if objs \<noteq> [] then (Some ''BucketNotEmpty'', w')
               else (None, w'\<lparr>buckets := AList.delete b (buckets w'),
                                notifications := filter (\<lambda>n. fst n \<noteq> b) (notifications w')\<rparr>)))"

text \<open>
  \<open>GetObject\<close> of the SDK hands out a reader; a missing object shows when the reader is
  read. The reader is modelled by the outcome of reading it to the end (\<open>io.ReadAll\<close>).
\<close>

definition sdk_GetObject ::
  "world \<Rightarrow> string \<Rightarrow> string \<Rightarrow> (error + (error + string)) \<times> world" where
  "sdk_GetObject w b k =
     (case next_fault w of
        (Some e, w') \<Rightarrow> (Inl e, w')
      | (None, w') \<Rightarrow>
          (case lookup_object w' b k of
             None \<Rightarrow> (Inr (Inl ''NoSuchKey''), w')
           | Some obj \<Rightarrow> (Inr (Inr (content obj)), w')))"

definition sdk_PutObject ::
  "world \<Rightarrow> string \<Rightarrow> string \<Rightarrow> string \<Rightarrow> int \<Rightarrow> string \<Rightarrow> error option \<times> world" where
  "sdk_PutObject w b k bytes sz ctype =
     (case next_fault w of
        (Some e, w') \<Rightarrow> (Some e, w')
      | (None, w') \<Rightarrow>
          (case map_of (buckets w') b of
             None \<Rightarrow> (Some ''NoSuchBucket'', w')
           | Some objs \<Rightarrow>
               (None, w'\<lparr>buckets :=
                  AList.update b
                    (AList.update k
                       \<lparr>content = bytes, content_size = sz, content_type = ctype,
                        last_modified = clock w'\<rparr> objs)
                    (buckets w')\<rparr>)))"

subsection \<open>The client wrapper\<close>

definition CreateBucket :: "world \<Rightarrow> string \<Rightarrow> error option \<times> world" where
  "CreateBucket w bucketName =
     (case sdk_BucketExists w bucketName of
        (Inl err, w1) \<Rightarrow> (Some (Errorf ''failed to check bucket existence'' err), w1)
      | (Inr exists, w1) \<Rightarrow>
          if exists then (None, w1)
          else (case sdk_MakeBucket w1 bucketName of
                  (Some err, w2) \<Rightarrow> (Some (Errorf ''failed to create bucket'' err), w2)
                | (None, w2) \<Rightarrow> (None, w2)))"

text \<open>The loop of \<open>DeleteBucket\<close> over the listing: it returns at the first error.\<close>

fun remove_objects ::
  "world \<Rightarrow> string \<Rightarrow> (error + ObjectInfo) list \<Rightarrow> error option \<times> world" where
  "remove_objects w bucketName [] = (None, w)"
| "remove_objects w bucketName (Inl err # rest) =
     (Some (Errorf ''failed to list objects'' err), w)"
| "remove_objects w bucketName (Inr object # rest) =
     (case sdk_RemoveObject w bucketName (obj_Name object) of
        (Some err, w1) \<Rightarrow>
          (Some (Errorf (''failed to remove object '' @ obj_Name object) err), w1)
      | (None, w1) \<Rightarrow> remove_objects w1 bucketName rest)"

definition DeleteBucket :: "world \<Rightarrow> string \<Rightarrow> error option \<times> world" where
  "DeleteBucket w bucketName =
     (case sdk_ListObjects w bucketName '''' of
        (objectsCh, w1) \<Rightarrow>
          (case remove_objects w1 bucketName objectsCh of
             (Some err, w2) \<Rightarrow> (Some err, w2)
           | (None, w2) \<Rightarrow>
               (case sdk_RemoveBucket w2 bucketName of
                  (Some err, w3) \<Rightarrow> (Some (Errorf ''failed to remove bucket'' err), w3)
                | (None, w3) \<Rightarrow> (None, w3))))"

definition UploadFile ::
  "world \<Rightarrow> string \<Rightarrow> string \<Rightarrow> string \<Rightarrow> int \<Rightarrow> string \<Rightarrow> error option \<times> world" where
  "UploadFile w bucketName objectName reader sz contentType =
     (case sdk_PutObject w bucketName objectName reader sz contentType of
        (Some err, w1) \<Rightarrow> (Some (Errorf ''failed to upload file'' err), w1)
      | (None, w1) \<Rightarrow> (None, w1))"

definition DeleteFile :: "world \<Rightarrow> string \<Rightarrow> string \<Rightarrow> error option \<times> world" where
  "DeleteFile w bucketName objectName =
     (case sdk_RemoveObject w bucketName objectName of
        (Some err, w1) \<Rightarrow> (Some (Errorf ''failed to delete file'' err), w1)
      | (None, w1) \<Rightarrow> (None, w1))"

definition BucketExists :: "world \<Rightarrow> string \<Rightarrow> (error + bool) \<times> world" where
  "BucketExists w bucketName = sdk_BucketExists w bucketName"

definition ListBuckets :: "world \<Rightarrow> (error + string list) \<times> world" where
  "ListBuckets w =
     (case sdk_ListBuckets w of
        (Inl err, w1) \<Rightarrow> (Inl (Errorf ''failed to list buckets'' err), w1)
      | (Inr names, w1) \<Rightarrow> (Inr names, w1))"

definition GetObject :: "world \<Rightarrow> string \<Rightarrow> string \<Rightarrow> (error + string) \<times> world" where
  "GetObject w bucketName objectName =
     (case sdk_GetObject w bucketName objectName of
        (Inl err, w1) \<Rightarrow> (Inl (Errorf ''failed to get object'' err), w1)
      | (Inr obj, w1) \<Rightarrow>
          (case obj of
             Inl err \<Rightarrow> (Inl (Errorf ''failed to read object'' err), w1)
           | Inr bytes \<Rightarrow> (Inr bytes, w1)))"

definition PutObjectBytes ::
  "world \<Rightarrow> string \<Rightarrow> string \<Rightarrow> string \<Rightarrow> string \<Rightarrow> error option \<times> world" where
  "PutObjectBytes w bucketName objectName bytes contentType =
     (case sdk_PutObject w bucketName objectName bytes (int (length bytes)) contentType of
        (Some err, w1) \<Rightarrow> (Some (Errorf ''failed to put object'' err), w1)
      | (None, w1) \<Rightarrow> (None, w1))"



text \<open>
  Modelled from the spec: \<open>SetBucketNotification\<close> of the client wrapper, which the
  handler calls and the client source lacks. The specification says that it arms a
  bucket-level event hook identified by a fixed suffix token, that arming again changes
  nothing, and that the call either succeeds or fails.
\<close>

definition SetBucketNotification :: "world \<Rightarrow> string \<Rightarrow> string \<Rightarrow> error option \<times> world" where
  "SetBucketNotification w bucketName token =
     (case next_fault w of
        (Some e, w') \<Rightarrow> (Some e, w')
      | (None, w') \<Rightarrow>
          if \<not> bucket_exists w' bucketName then (Some ''NoSuchBucket'', w')
          else (None, w'\<lparr>notifications :=
                  List.insert (bucketName, token) (notifications w')\<rparr>))"

subsection \<open>The status store\<close>

definition same_document :: "string \<Rightarrow> string \<Rightarrow> DocumentStatus \<Rightarrow> bool" where
  "same_document indexName filename s \<longleftrightarrow> IndexName s = indexName \<and> Filename s = filename"

text \<open>
  Modelled from the spec: \<open>DatabaseService.StoreDocumentStatus\<close>, which is not part of the
  sources. The specification has a table keyed by (index, filename) into which the row is
  inserted, so the row takes the place of any row with its key.
\<close>

definition StoreDocumentStatus :: "world \<Rightarrow> DocumentStatus \<Rightarrow> error option \<times> world" where
  "StoreDocumentStatus w docStatus =
     (case next_fault w of
        (Some e, w') \<Rightarrow> (Some e, w')
      | (None, w') \<Rightarrow>
          (None, w'\<lparr>status_rows :=
             filter (\<lambda>s. \<not> same_document (IndexName docStatus) (Filename docStatus) s)
               (status_rows w') @ [docStatus]\<rparr>))"

text \<open>
  Modelled from the spec: \<open>DatabaseService.UpdateDocumentStatus\<close>, which is not part of the
  sources. The specification says that it upserts the status row of (index, filename) and
  fails only on a fault of the storage layer: an existing row gets the new status and error
  message, and a missing row is created.
\<close>

definition UpdateDocumentStatus ::
  "world \<Rightarrow> string \<Rightarrow> string \<Rightarrow> string \<Rightarrow> string \<Rightarrow> error option \<times> world" where
  "UpdateDocumentStatus w indexName filename status errorMsg =
     (case next_fault w of
        (Some e, w') \<Rightarrow> (Some e, w')
      | (None, w') \<Rightarrow>
          if list_ex (same_document indexName filename) (status_rows w')
          then (None, w'\<lparr>status_rows :=
                  map (\<lambda>s. if same_document indexName filename s
                            then s\<lparr>Status := status, ErrorMsg := errorMsg\<rparr> else s)
                    (status_rows w')\<rparr>)
          else (None, w'\<lparr>status_rows := status_rows w' @
                  [\<lparr>ID = '''', IndexName = indexName, Filename = filename,
                    Status = status, ErrorMsg = errorMsg\<rparr>]\<rparr>))"

text \<open>
  Modelled from the spec: \<open>DatabaseService.DeleteDocumentStatus\<close>, which is not part of the
  sources: it removes the status row of (index, filename).
\<close>

definition DeleteDocumentStatus :: "world \<Rightarrow> string \<Rightarrow> string \<Rightarrow> error option \<times> world" where
  "DeleteDocumentStatus w indexName filename =
     (case next_fault w of
        (Some e, w') \<Rightarrow> (Some e, w')
      | (None, w') \<Rightarrow>
          (None, w'\<lparr>status_rows :=
             filter (\<lambda>s. \<not> same_document indexName filename s) (status_rows w')\<rparr>))"

text \<open>
  Modelled from the spec: \<open>DatabaseService.DeleteDocumentStatusesForIndex\<close>, which is not
  part of the sources: it removes all status rows of the index.
\<close>

definition DeleteDocumentStatusesForIndex :: "world \<Rightarrow> string \<Rightarrow> error option \<times> world" where
  "DeleteDocumentStatusesForIndex w indexName =
     (case next_fault w of
        (Some e, w') \<Rightarrow> (Some e, w')
      | (None, w') \<Rightarrow>
          (None, w'\<lparr>status_rows := filter (\<lambda>s. IndexName s \<noteq> indexName) (status_rows w')\<rparr>))"


section \<open>The handlers of the RAG indices\<close>

text \<open>
  The handler holds a pointer to the client of the object store; \<open>MinioClient\<close> is
  \<open>True\<close> when the pointer is not \<open>nil\<close>.
\<close>

record RAGIndicesHandler =
  MinioClient :: bool

text \<open>
  The library functions that are parameters of the model: the JSON encoding of
  \<^typ>\<open>RAGIndex\<close> in both directions and the Unicode case tables.
\<close>

record runtime =
  json_Marshal :: "RAGIndex \<Rightarrow> error + string"
  json_Unmarshal :: "string \<Rightarrow> error + RAGIndex"
  unicode_lower :: "string \<Rightarrow> string"

text \<open>
  Of an HTTP request a handler sees the outcomes of \<open>GetPathParam\<close> for the path
  parameters, of \<open>DecodeJSONBody\<close> for the body, and of \<open>ParseMultipartForm\<close> and
  \<open>FormFile\<close> for an upload; they are the arguments of the handlers below, an error
  being \<open>Inl\<close> (or \<open>Some\<close> where nothing else is returned). \<open>time.Now()\<close> and
  \<open>uuid.New()\<close> are arguments as well.
\<close>

definition not_configured :: api_error where
  "not_configured = InternalServerError ''MinIO client not configured'' None"

definition getIndexMetadata ::
  "runtime \<Rightarrow> world \<Rightarrow> string \<Rightarrow> (error + RAGIndex) \<times> world" where
  "getIndexMetadata rt w bucketName =
     (case GetObject w bucketName metadataFile of
        (Inl err, w1) \<Rightarrow> (Inl (Errorf ''failed to get metadata'' err), w1)
      | (Inr bytes, w1) \<Rightarrow>
          (case json_Unmarshal rt bytes of
             Inl err \<Rightarrow> (Inl (Errorf ''failed to parse metadata'' err), w1)
           | Inr index \<Rightarrow> (Inr index, w1)))"

definition putIndexMetadata ::
  "runtime \<Rightarrow> world \<Rightarrow> string \<Rightarrow> RAGIndex \<Rightarrow> error option \<times> world" where
  "putIndexMetadata rt w bucketName index =
     (case json_Marshal rt index of
        Inl err \<Rightarrow> (Some (Errorf ''failed to serialize metadata'' err), w)
      | Inr bytes \<Rightarrow>
          (case PutObjectBytes w bucketName metadataFile bytes ''application/json'' of
             (Some err, w1) \<Rightarrow> (Some (Errorf ''failed to store metadata'' err), w1)
           | (None, w1) \<Rightarrow> (None, w1)))"

text \<open>The loop of \<open>HandleListRAGIndices\<close> over the buckets.\<close>

fun collect_indices ::
  "runtime \<Rightarrow> world \<Rightarrow> string list \<Rightarrow> RAGIndex list \<Rightarrow> RAGIndex list \<times> world" where
  "collect_indices rt w [] indices = (indices, w)"
| "collect_indices rt w (bucket # rest) indices =
     (case getIndexMetadata rt w bucket of
        (Inl err, w1) \<Rightarrow> collect_indices rt w1 rest indices
      | (Inr metadata, w1) \<Rightarrow> collect_indices rt w1 rest (indices @ [metadata]))"

definition HandleListRAGIndices ::
  "runtime \<Rightarrow> RAGIndicesHandler \<Rightarrow> world \<Rightarrow> RAGIndex list response \<times> world" where
  "HandleListRAGIndices rt h w =
     (if \<not> MinioClient h then (RespondWithError not_configured, w)
      else case ListBuckets w of
        (Inl err, w1) \<Rightarrow>
          (RespondWithError (InternalServerError ''Failed to list indices'' (Some err)), w1)
      | (Inr bucketNames, w1) \<Rightarrow>
          (case collect_indices rt w1 bucketNames [] of
             (indices, w2) \<Rightarrow>
               (RespondWithJSON 200 indices ''Successfully listed RAG indices'', w2)))"

definition HandleCreateRAGIndex ::
  "runtime \<Rightarrow> RAGIndicesHandler \<Rightarrow> time \<Rightarrow> error + CreateRAGIndexRequest \<Rightarrow> world
     \<Rightarrow> RAGIndex response \<times> world" where
  "HandleCreateRAGIndex rt h now body w =
     (if \<not> MinioClient h then (RespondWithError not_configured, w)
      else case body of
        Inl err \<Rightarrow> (RespondWithError (BadRequestError ''Invalid request body'' (Some err)), w)
      | Inr req \<Rightarrow>
          if req_Name req = '''' then
            (RespondWithError (BadRequestError ''Index name is required'' None), w)
          else if \<not> isValidIndexName (unicode_lower rt) (req_Name req) then
            (RespondWithError (BadRequestError
               ''Index name must be lowercase alphanumeric with hyphens only'' None), w)
          else case BucketExists w (req_Name req) of
            (Inl err, w1) \<Rightarrow>
              (RespondWithError (InternalServerError ''Failed to check index'' (Some err)), w1)
          | (Inr exists, w1) \<Rightarrow>
              if exists then
                (RespondWithError (ConflictError
                   (''RAG index '' @ [CHR 0x27] @ req_Name req @ [CHR 0x27] @ '' already exists'')
                   None), w1)
              else case CreateBucket w1 (req_Name req) of
                (Some err, w2) \<Rightarrow>
                  (RespondWithError
                     (InternalServerError ''Failed to create index'' (Some err)), w2)
              | (None, w2) \<Rightarrow>
                  (case SetBucketNotification w2 (req_Name req) ''KAGENT'' of
                     (Some err, w3) \<Rightarrow>
                       (case DeleteBucket w3 (req_Name req) of
                          (_, w4) \<Rightarrow>
                            (RespondWithError (InternalServerError
                               ''Failed to configure index notifications'' (Some err)), w4))
                   | (None, w3) \<Rightarrow>
                       (let index = \<lparr>Name = req_Name req, Description = req_Description req,
                                     CreatedAt = now\<rparr>
                        in case putIndexMetadata rt w3 (req_Name req) index of
                          (Some err, w4) \<Rightarrow>
                            (case DeleteBucket w4 (req_Name req) of
                               (_, w5) \<Rightarrow>
                                 (RespondWithError (InternalServerError
                                    ''Failed to create index metadata'' (Some err)), w5))
                        | (None, w4) \<Rightarrow>
                            (RespondWithJSON 201 index ''Successfully created RAG index'', w4))))"

definition HandleDeleteRAGIndex ::
  "RAGIndicesHandler \<Rightarrow> error + string \<Rightarrow> world \<Rightarrow> unit response \<times> world" where
  "HandleDeleteRAGIndex h name w =
     (if \<not> MinioClient h then (RespondWithError not_configured, w)
      else case name of
        Inl err \<Rightarrow>
          (RespondWithError
             (BadRequestError ''Failed to get index name from path'' (Some err)), w)
      | Inr indexName \<Rightarrow>
          (case BucketExists w indexName of
             (Inl err, w1) \<Rightarrow>
               (RespondWithError (InternalServerError ''Failed to check index'' (Some err)), w1)
           | (Inr exists, w1) \<Rightarrow>
               if \<not> exists then
                 (RespondWithError (NotFoundError ''RAG index not found'' None), w1)
               else case DeleteBucket w1 indexName of
                 (Some err, w2) \<Rightarrow>
                   (RespondWithError
                      (InternalServerError ''Failed to delete index'' (Some err)), w2)
               | (None, w2) \<Rightarrow>
                   (case DeleteDocumentStatusesForIndex w2 indexName of
                      (_, w3) \<Rightarrow>
                        (RespondWithJSON 200 () ''Successfully deleted RAG index'', w3))))"

definition HandleUpdateRAGIndex ::
  "runtime \<Rightarrow> RAGIndicesHandler \<Rightarrow> error + string \<Rightarrow> error + UpdateRAGIndexRequest \<Rightarrow> world
     \<Rightarrow> RAGIndex response \<times> world" where
  "HandleUpdateRAGIndex rt h name body w =
     (if \<not> MinioClient h then (RespondWithError not_configured, w)
      else case name of
        Inl err \<Rightarrow>
          (RespondWithError
             (BadRequestError ''Failed to get index name from path'' (Some err)), w)
      | Inr indexName \<Rightarrow>
          (case body of
             Inl err \<Rightarrow>
               (RespondWithError (BadRequestError ''Invalid request body'' (Some err)), w)
           | Inr req \<Rightarrow>
               (case getIndexMetadata rt w indexName of
                  (Inl err, w1) \<Rightarrow>
                    (RespondWithError (NotFoundError ''RAG index not found'' (Some err)), w1)
                | (Inr metadata, w1) \<Rightarrow>
                    (let metadata = metadata\<lparr>Description := upd_Description req\<rparr>
                     in case putIndexMetadata rt w1 indexName metadata of
                       (Some err, w2) \<Rightarrow>
                         (RespondWithError
                            (InternalServerError ''Failed to update index'' (Some err)), w2)
                     | (None, w2) \<Rightarrow>
                         (RespondWithJSON 200 metadata
                            ''Successfully updated RAG index'', w2)))))"




definition HandleUploadDocument ::
  "runtime \<Rightarrow> RAGIndicesHandler \<Rightarrow> time \<Rightarrow> string \<Rightarrow> error + string \<Rightarrow> error option
     \<Rightarrow> error + FileHeader \<Rightarrow> world \<Rightarrow> RAGDocument response \<times> world" where
  "HandleUploadDocument rt h now uuid name parseForm formFile w =
     (if \<not> MinioClient h then (RespondWithError not_configured, w)
      else case name of
        Inl err \<Rightarrow>
          (RespondWithError
             (BadRequestError ''Failed to get index name from path'' (Some err)), w)
      | Inr indexName \<Rightarrow>
          (case BucketExists w indexName of
             (Inl err, w1) \<Rightarrow>
               (RespondWithError (InternalServerError ''Failed to check index'' (Some err)), w1)
           | (Inr exists, w1) \<Rightarrow>
               if \<not> exists then
                 (RespondWithError (NotFoundError ''RAG index not found'' None), w1)
               else case parseForm of
                 Some err \<Rightarrow>
                   (RespondWithError (BadRequestError ''Failed to parse form'' (Some err)), w1)
               | None \<Rightarrow>
                   (case formFile of
                      Inl err \<Rightarrow>
                        (RespondWithError
                           (BadRequestError ''Missing file in request'' (Some err)), w1)
                    | Inr handler \<Rightarrow>
                        if fh_Filename handler = metadataFile then
                          (RespondWithError (BadRequestError
                             ''Cannot upload file with reserved name'' None), w1)
                        else
                          let ext = ToLower (unicode_lower rt) (Ext (fh_Filename handler)) in
                          if \<not> supported ext then
                            (RespondWithError (BadRequestError
                               (''Unsupported file type '' @ [CHR 0x27] @ ext @ [CHR 0x27]
                                @ ''. Supported types: .txt, .md, .json, .csv, .docx, .pdf'')
                               None), w1)
                          else
                            let contentType =
                                  (if fh_ContentType handler = '''' then ''application/octet-stream''
                                   else fh_ContentType handler)
                            in case UploadFile w1 indexName (fh_Filename handler)
                                      (fh_content handler) (fh_Size handler) contentType of
                              (Some err, w2) \<Rightarrow>
                                (RespondWithError
                                   (InternalServerError ''Failed to upload file'' (Some err)), w2)
                            | (None, w2) \<Rightarrow>
                                (let docStatus =
                                       \<lparr>ID = uuid, IndexName = indexName,
                                        Filename = fh_Filename handler, Status = ''pending'',
                                        ErrorMsg = ''''\<rparr>
                                 in case StoreDocumentStatus w2 docStatus of
                                   (_, w3) \<Rightarrow>
                                     (let doc = \<lparr>doc_Name = fh_Filename handler,
                                                 doc_Size = fh_Size handler,
                                                 doc_LastModified = now,
                                                 doc_Status = ''pending''\<rparr>
                                      in (RespondWithJSON 201 doc
                                            ''Successfully uploaded document'', w3))))))"

definition HandleDeleteDocument ::
  "RAGIndicesHandler \<Rightarrow> error + string \<Rightarrow> error + string \<Rightarrow> world \<Rightarrow> unit response \<times> world" where
  "HandleDeleteDocument h name fname w =
     (if \<not> MinioClient h then (RespondWithError not_configured, w)
      else case name of
        Inl err \<Rightarrow>
          (RespondWithError
             (BadRequestError ''Failed to get index name from path'' (Some err)), w)
      | Inr indexName \<Rightarrow>
          (case fname of
             Inl err \<Rightarrow>
               (RespondWithError
                  (BadRequestError ''Failed to get filename from path'' (Some err)), w)
           | Inr filename \<Rightarrow>
               (case BucketExists w indexName of
                  (Inl err, w1) \<Rightarrow>
                    (RespondWithError
                       (InternalServerError ''Failed to check index'' (Some err)), w1)
                | (Inr exists, w1) \<Rightarrow>
                    if \<not> exists then
                      (RespondWithError (NotFoundError ''RAG index not found'' None), w1)
                    else if filename = metadataFile then
                      (RespondWithError (BadRequestError ''Cannot delete reserved file'' None), w1)
                    else case DeleteFile w1 indexName filename of
                      (Some err, w2) \<Rightarrow>
                        (RespondWithError
                           (InternalServerError ''Failed to delete document'' (Some err)), w2)
                    | (None, w2) \<Rightarrow>
                        (case DeleteDocumentStatus w2 indexName filename of
                           (_, w3) \<Rightarrow>
                             (RespondWithJSON 200 ()
                                ''Successfully deleted document'', w3)))))"

definition HandleUpdateDocumentStatus ::
  "error + string \<Rightarrow> error + string \<Rightarrow> error + UpdateStatusRequest \<Rightarrow> world
     \<Rightarrow> unit response \<times> world" where
  "HandleUpdateDocumentStatus name fname body w =
     (case name of
        Inl err \<Rightarrow>
          (RespondWithError
             (BadRequestError ''Failed to get index name from path'' (Some err)), w)
      | Inr indexName \<Rightarrow>
          (case fname of
             Inl err \<Rightarrow>
               (RespondWithError
                  (BadRequestError ''Failed to get filename from path'' (Some err)), w)
           | Inr filename \<Rightarrow>
               (case body of
                  Inl err \<Rightarrow>
                    (RespondWithError (BadRequestError ''Invalid request body'' (Some err)), w)
                | Inr req \<Rightarrow>
                    if st_Status req = '''' then
                      (RespondWithError (BadRequestError ''Status is required'' None), w)
                    else case UpdateDocumentStatus w indexName filename
                                (st_Status req) (st_ErrorMsg req) of
                      (Some err, w1) \<Rightarrow>
                        (RespondWithError (InternalServerError
                           ''Failed to update document status'' (Some err)), w1)
                    | (None, w1) \<Rightarrow>
                        (RespondWithJSON 200 ()
                           ''Successfully updated document status'', w1))))"

section \<open>Notions of the specification\<close>

text \<open>
  The metadata of a bucket as the object store holds it: the index that the reserved
  object of the bucket parses to, if the bucket has that object and it parses.
\<close>

definition stored_metadata :: "runtime \<Rightarrow> world \<Rightarrow> string \<Rightarrow> RAGIndex option" where
  "stored_metadata rt w b =
     (case lookup_object w b metadataFile of
        None \<Rightarrow> None
      | Some obj \<Rightarrow>
          (case json_Unmarshal rt (content obj) of Inl err \<Rightarrow> None | Inr index \<Rightarrow> Some index))"



text \<open>
  The invariant of the specification: an index exists when its bucket exists and the
  reserved object of the bucket parses.
\<close>

definition index_exists :: "runtime \<Rightarrow> world \<Rightarrow> string \<Rightarrow> bool" where
  "index_exists rt w name \<longleftrightarrow> bucket_exists w name \<and> stored_metadata rt w name \<noteq> None"

text \<open>
  The outcomes that the next \<open>n\<close> calls to a store will meet, given the outcomes that
  are pending: those, and \<open>None\<close> once they are used up.
\<close>

definition fetch_outcomes :: "error option list \<Rightarrow> nat \<Rightarrow> error option list" where
  "fetch_outcomes fs n = take n fs @ replicate (n - length fs) None"

text \<open>
  The indices that a listing reports for the buckets \<open>bs\<close>, each bucket fetched by one
  call: the stored metadata of the buckets whose fetch does not fail and that have one.
\<close>

definition listed_metadata ::
  "runtime \<Rightarrow> world \<Rightarrow> error option list \<Rightarrow> string list \<Rightarrow> RAGIndex list" where
  "listed_metadata rt w fs bs =
     List.map_filter
       (\<lambda>(b, f). case f of Some e \<Rightarrow> None | None \<Rightarrow> stored_metadata rt w b)
       (zip bs (fetch_outcomes fs (length bs)))"

subsection \<open>Sample values\<close>

text \<open>
  A runtime with a toy encoding (name and description around a semicolon), and two
  worlds: an empty one, and one with a bucket that is an index, a bucket that is not, and
  one status row.
\<close>

definition sample_runtime :: runtime where
  "sample_runtime =
     \<lparr>json_Marshal = (\<lambda>index. Inr (Name index @ '';'' @ Description index)),
      json_Unmarshal = (\<lambda>bytes.
         if CHR '';'' \<in> set bytes
         then Inr \<lparr>Name = takeWhile (\<lambda>c. c \<noteq> CHR '';'') bytes,
                   Description = tl (dropWhile (\<lambda>c. c \<noteq> CHR '';'') bytes),
                   CreatedAt = 0\<rparr>
         else Inl ''invalid character''),
      unicode_lower = (\<lambda>s. s)\<rparr>"

definition sample_handler :: RAGIndicesHandler where
  "sample_handler = \<lparr>MinioClient = True\<rparr>"

definition empty_world :: world where
  "empty_world = \<lparr>buckets = [], notifications = [], status_rows = [], faults = [], clock = 0\<rparr>"

definition blob :: "string \<Rightarrow> stored_object" where
  "blob bytes = \<lparr>content = bytes, content_size = int (length bytes),
                 content_type = ''text/plain'', last_modified = 3\<rparr>"

definition sample_world :: world where
  "sample_world =
     \<lparr>buckets = [(''docs'', [(''.metadata.json'', blob ''docs;notes''), (''a.txt'', blob ''hello''),
                             (''b.md'', blob ''text'')]),
                 (''raw'', [(''x.bin'', blob ''01'')])],
      notifications = [(''docs'', ''KAGENT'')],
      status_rows = [\<lparr>ID = ''1'', IndexName = ''docs'', Filename = ''a.txt'',
                      Status = ''completed'', ErrorMsg = ''''\<rparr>],
      faults = [],
      clock = 7\<rparr>"

section \<open>Properties of the rune decoder\<close>

lemma or_ge_left: "n \<le> a \<Longrightarrow> (n::nat) \<le> a OR b"
  by (metis of_nat_0_le_iff of_nat_le_iff of_nat_or_eq or_greater_eq order_trans)

lemma or_ge_right: "n \<le> b \<Longrightarrow> (n::nat) \<le> a OR b"
  by (metis or_ge_left or.commute)

lemma and_low_bits:
  "(s::nat) AND 31 = s mod 32" "(s::nat) AND 15 = s mod 16"
  "(s::nat) AND 7 = s mod 8" "(s::nat) AND 63 = s mod 64"
proof -
  have m: "(31::nat) = mask 5" "(15::nat) = mask 4" "(7::nat) = mask 3" "(63::nat) = mask 6"
    by (simp_all add: mask_eq_exp_minus_1)
  show "(s::nat) AND 31 = s mod 32" "(s::nat) AND 15 = s mod 16"
    "(s::nat) AND 7 = s mod 8" "(s::nat) AND 63 = s mod 64"
    unfolding m take_bit_eq_mask [symmetric] by (simp_all add: take_bit_eq_mod)
qed

lemma mod_lower: "k * m + d \<le> a \<Longrightarrow> a < Suc k * m \<Longrightarrow> d \<le> (a::nat) mod m"
proof -
  assume a: "k * m + d \<le> a" "a < Suc k * m"
  then have "a = (a - k * m) + k * m" by simp
  moreover have "a - k * m < m" using a by simp
  ultimately have "a mod m = a - k * m"
    by (metis mod_less mod_mult_self1)
  then show ?thesis using a by simp
qed

lemma two_bytes: "194 \<le> a \<Longrightarrow> a < 224 \<Longrightarrow> 128 \<le> push_bit 6 ((a::nat) AND 31) OR b"
proof (rule or_ge_left)
  assume "194 \<le> a" "a < 224"
  then have "2 \<le> a mod 32" using mod_lower [of 6 32 2 a] by simp
  then show "128 \<le> push_bit 6 (a AND 31)" by (simp add: and_low_bits push_bit_eq_mult)
qed

lemma three_bytes:
  assumes "224 \<le> a" "a < 240" "a = 224 \<longrightarrow> 160 \<le> b \<and> b \<le> 191"
  shows "128 \<le> push_bit 12 ((a::nat) AND 15) OR push_bit 6 (b AND 63) OR c"
proof (cases "a = 224")
  case True
  then have "32 \<le> b mod 64" using assms mod_lower [of 2 64 32 b] by simp
  then have "128 \<le> push_bit 6 (b AND 63)" by (simp add: and_low_bits push_bit_eq_mult)
  then show ?thesis by (intro or_ge_right or_ge_left)
next
  case False
  then have "1 \<le> a mod 16" using assms mod_lower [of 14 16 1 a] by simp
  then have "128 \<le> push_bit 12 (a AND 15)" by (simp add: and_low_bits push_bit_eq_mult)
  then show ?thesis by (rule or_ge_left)
qed

lemma four_bytes:
  assumes "240 \<le> a" "a < 245" "a = 240 \<longrightarrow> 144 \<le> b \<and> b \<le> 191"
  shows "128 \<le> push_bit 18 ((a::nat) AND 7) OR push_bit 12 (b AND 63) OR c"
proof (cases "a = 240")
  case True
  then have "16 \<le> b mod 64" using assms mod_lower [of 2 64 16 b] by simp
  then have "128 \<le> push_bit 12 (b AND 63)" by (simp add: and_low_bits push_bit_eq_mult)
  then show ?thesis by (intro or_ge_right or_ge_left)
next
  case False
  then have "1 \<le> a mod 8" using assms mod_lower [of 30 8 1 a] by simp
  then have "128 \<le> push_bit 18 (a AND 7)" by (simp add: and_low_bits push_bit_eq_mult)
  then show ?thesis by (rule or_ge_left)
qed

lemma acceptRange_Some:
  "acceptRange s0 = Some (sz, lo, hi) \<Longrightarrow>
     (sz = 2 \<and> 194 \<le> s0 \<and> s0 < 224) \<or>
     (sz = 3 \<and> 224 \<le> s0 \<and> s0 < 240 \<and> (s0 = 224 \<longrightarrow> lo = 160 \<and> hi = 191)) \<or>
     (sz = 4 \<and> 240 \<le> s0 \<and> s0 < 245 \<and> (s0 = 240 \<longrightarrow> lo = 144 \<and> hi = 191))"
  by (simp add: acceptRange_def split: if_splits)

text \<open>A byte outside ASCII never starts a rune below 128.\<close>

lemma decode_nonascii:
  assumes "128 \<le> (of_char c0 :: nat)"
  shows "128 \<le> fst (DecodeRuneInString (c0 # cs))"
proof (cases "acceptRange (of_char c0)")
  case None
  then show ?thesis using assms by (simp add: RuneError_def)
next
  case (Some t)
  obtain sz lo hi where t: "t = (sz, lo, hi)" by (cases t)
  note ar = acceptRange_Some [OF Some [unfolded t]]
  show ?thesis
    using assms ar two_bytes three_bytes four_bytes
    by (auto simp add: Some t Let_def RuneError_def simp del: push_bit_and)
qed

lemma decode_ascii:
  "(of_char c0 :: nat) < 128 \<Longrightarrow> DecodeRuneInString (c0 # cs) = (of_char c0, 1)"
  by simp

section \<open>Index name validation\<close>

lemma alnum_codes:
  "map of_char ''abcdefghijklmnopqrstuvwxyz0123456789'' = [97..<123] @ [48..<58::nat]"
  by simp

lemma isAlphanumeric_of_char: "isAlphanumeric (of_char c) \<longleftrightarrow> lower_alnum c"
proof -
  have "isAlphanumeric (of_char c) \<longleftrightarrow> (of_char c :: nat) \<in> set ([97..<123] @ [48..<58])"
    unfolding isAlphanumeric_def by (simp del: upt_rec_numeral) arith
  also have "\<dots> \<longleftrightarrow> (of_char c :: nat) \<in> of_char ` set ''abcdefghijklmnopqrstuvwxyz0123456789''"
    unfolding alnum_codes [symmetric] set_map ..
  also have "\<dots> \<longleftrightarrow> c \<in> set ''abcdefghijklmnopqrstuvwxyz0123456789''"
    by (rule inj_image_mem_iff) (simp add: inj_on_def)
  finally show ?thesis by (simp only: lower_alnum_def)
qed

lemma hyphen_of_char: "(of_char c :: nat) = 45 \<longleftrightarrow> c = CHR ''-''"
proof -
  have "(of_char c :: nat) = 45 \<longleftrightarrow> (of_char c :: nat) = of_char CHR ''-''" by simp
  also have "\<dots> \<longleftrightarrow> c = CHR ''-''" by (simp only: of_char_eq_iff)
  finally show ?thesis .
qed

text \<open>The loop over the runes accepts exactly the byte strings over the allowed characters.\<close>

lemma name_runes_ok_bytes:
  "name_runes_ok (range_runes s) \<longleftrightarrow> list_all (\<lambda>c. lower_alnum c \<or> c = CHR ''-'') s"
proof (induction s rule: range_runes.induct)
  case 1
  show ?case by simp
next
  case (2 c cs)
  show ?case
  proof (cases "(of_char c :: nat) < 128")
    case True
    then have d: "DecodeRuneInString (c # cs) = (of_char c, 1)" by (rule decode_ascii)
    from "2.IH" [OF d [symmetric]] d show ?thesis
      by (simp add: isAlphanumeric_of_char hyphen_of_char)
  next
    case False
    obtain r w where d: "DecodeRuneInString (c # cs) = (r, w)" by fastforce
    from False decode_nonascii [of c cs] d have r: "128 \<le> r" by simp
    then have "\<not> isAlphanumeric r" "r \<noteq> 45" by (simp_all add: isAlphanumeric_def)
    moreover from False have "\<not> isAlphanumeric (of_char c)" "(of_char c :: nat) \<noteq> 45"
      by (simp_all add: isAlphanumeric_def)
    ultimately show ?thesis
      using d by (simp add: isAlphanumeric_of_char [symmetric] hyphen_of_char [symmetric]
          del: DecodeRuneInString.simps)
  qed
qed

lemma ascii_lower_fixed: "lower_alnum c \<or> c = CHR ''-'' \<Longrightarrow> ascii_lower c = c"
  by (auto simp add: ascii_lower_def isAlphanumeric_of_char [symmetric] isAlphanumeric_def)

lemma ascii_allowed: "lower_alnum c \<or> c = CHR ''-'' \<Longrightarrow> (of_char c :: nat) < 128"
  by (auto simp add: isAlphanumeric_of_char [symmetric] isAlphanumeric_def)

lemma ToLower_fixed:
  assumes "list_all (\<lambda>c. lower_alnum c \<or> c = CHR ''-'') s"
  shows "ToLower U s = s"
proof -
  from assms have "list_all (\<lambda>c. (of_char c :: nat) < 128) s"
    by (induction s) (simp_all add: ascii_allowed)
  moreover from assms have "map ascii_lower s = s"
    by (induction s) (simp_all add: ascii_lower_fixed)
  ultimately show ?thesis by (simp add: ToLower_def)
qed

text \<open>
  Claim C5. For every string, \<open>isValidIndexName\<close> accepts it if and only if it is 1 to 63
  characters of lowercase alphanumerics and hyphens that starts and ends with an
  alphanumeric. Hence it rejects the empty string, a string longer than 63 characters, and
  any string with an uppercase letter, a leading or trailing hyphen, or a character outside
  \<open>[a-z0-9-]\<close>. This holds whatever the Unicode case tables are.
\<close>

theorem isValidIndexName_iff: "isValidIndexName U name \<longleftrightarrow> index_name_rule name"
proof (cases "name = []")
  case True
  then show ?thesis by (simp add: isValidIndexName_def index_name_rule_def)
next
  case False
  then have h: "name ! 0 = hd name" "name ! (length name - Suc 0) = last name"
    by (simp_all add: hd_conv_nth last_conv_nth)
  from False have l: "1 \<le> length name" by (cases name) simp_all
  show ?thesis
    using False l ToLower_fixed [of name U]
    by (auto simp add: isValidIndexName_def index_name_rule_def h isAlphanumeric_of_char
        name_runes_ok_bytes)
qed

theorem isValidIndexName_iff_witness:
  "isValidIndexName (\<lambda>s. s) ''my-index-1'' \<and> index_name_rule ''my-index-1''
   \<and> \<not> isValidIndexName (\<lambda>s. s) ''My-index'' \<and> \<not> index_name_rule ''My-index''
   \<and> \<not> isValidIndexName (\<lambda>s. s) ''-a'' \<and> \<not> isValidIndexName (\<lambda>s. s) ''''"
proof -
  have a: "index_name_rule ''my-index-1''"
    by (simp add: index_name_rule_def lower_alnum_def)
  have b: "\<not> index_name_rule ''My-index''"
    by (simp add: index_name_rule_def lower_alnum_def)
  have c: "\<not> index_name_rule ''-a''"
    by (simp add: index_name_rule_def lower_alnum_def)
  have d: "\<not> index_name_rule ''''"
    by (simp add: index_name_rule_def)
  show ?thesis
    using a b c d
      isValidIndexName_iff [of "\<lambda>s. s" "''my-index-1''"]
      isValidIndexName_iff [of "\<lambda>s. s" "''My-index''"]
      isValidIndexName_iff [of "\<lambda>s. s" "''-a''"]
      isValidIndexName_iff [of "\<lambda>s. s" "''''"]
    by blast
qed

section \<open>Frame properties of the environment\<close>

lemma next_fault_frame:
  "next_fault w = (f, w') \<Longrightarrow>
     buckets w' = buckets w \<and> status_rows w' = status_rows w \<and>
     notifications w' = notifications w \<and> clock w' = clock w"
  by (auto simp add: next_fault_def split: list.splits)

lemma next_fault_no_faults: "faults w = [] \<Longrightarrow> next_fault w = (None, w)"
  by (simp add: next_fault_def)

lemma next_fault_faults: "next_fault w = (f, w') \<Longrightarrow> faults w = [] \<Longrightarrow> faults w' = []"
  by (auto simp add: next_fault_def)

lemma bucket_exists_cong: "buckets w' = buckets w \<Longrightarrow> bucket_exists w' b = bucket_exists w b"
  by (simp add: bucket_exists_def)

lemma lookup_object_cong:
  "buckets w' = buckets w \<Longrightarrow> lookup_object w' b k = lookup_object w b k"
  by (simp add: lookup_object_def)

lemma BucketExists_frame:
  assumes "BucketExists w b = (r, w')"
  shows "buckets w' = buckets w" "status_rows w' = status_rows w"
  using assms next_fault_frame [of w]
  by (auto simp add: BucketExists_def sdk_BucketExists_def split: prod.splits option.splits)

lemma BucketExists_value:
  assumes "BucketExists w b = (Inr x, w')"
  shows "x = bucket_exists w b"
  using assms next_fault_frame [of w]
  by (auto simp add: BucketExists_def sdk_BucketExists_def bucket_exists_def
      split: prod.splits option.splits)


lemma DeleteFile_result:
  assumes "DeleteFile w b k = (r, w')"
  shows "status_rows w' = status_rows w"
    "r = None \<Longrightarrow> lookup_object w' b k = None"
    "r \<noteq> None \<Longrightarrow> buckets w' = buckets w"
  using assms next_fault_frame [of w]
  by (auto simp add: DeleteFile_def sdk_RemoveObject_def lookup_object_def update_conv'
      delete_conv' split: prod.splits option.splits)

lemma sdk_PutObject_result:
  assumes "sdk_PutObject w b k bytes sz ctype = (r, w')"
  shows "status_rows w' = status_rows w"
    "r = None \<Longrightarrow> lookup_object w' b k =
       Some \<lparr>content = bytes, content_size = sz, content_type = ctype,
             last_modified = clock w\<rparr>"
    "r \<noteq> None \<Longrightarrow> buckets w' = buckets w"
  using assms next_fault_frame [of w]
  by (auto simp add: sdk_PutObject_def lookup_object_def update_conv'
      split: prod.splits option.splits)


lemma PutObjectBytes_result:
  assumes "PutObjectBytes w b k bytes ctype = (r, w')"
  shows "status_rows w' = status_rows w"
    "r = None \<Longrightarrow> \<exists>obj. lookup_object w' b k = Some obj \<and> content obj = bytes"
    "r \<noteq> None \<Longrightarrow> buckets w' = buckets w"
proof -
  obtain r0 w0 where p: "sdk_PutObject w b k bytes (int (length bytes)) ctype = (r0, w0)"
    by fastforce
  from assms p have eq: "w' = w0" "r = None \<longleftrightarrow> r0 = None"
    by (auto simp add: PutObjectBytes_def split: option.splits)
  note facts = sdk_PutObject_result [OF p]
  show "status_rows w' = status_rows w" using facts(1) eq by simp
  show "r = None \<Longrightarrow> \<exists>obj. lookup_object w' b k = Some obj \<and> content obj = bytes"
    using facts(2) eq by simp
  show "r \<noteq> None \<Longrightarrow> buckets w' = buckets w" using facts(3) eq by simp
qed

lemma sdk_RemoveObject_status:
  "sdk_RemoveObject w b k = (r, w') \<Longrightarrow> status_rows w' = status_rows w"
  using next_fault_frame [of w]
  by (auto simp add: sdk_RemoveObject_def split: prod.splits option.splits)

lemma remove_objects_status:
  "remove_objects w b items = (r, w') \<Longrightarrow> status_rows w' = status_rows w"
proof (induction w b items rule: remove_objects.induct)
  case (1 w bucketName)
  then show ?case by simp
next
  case (2 w bucketName err rest)
  then show ?case by simp
next
  case (3 w bucketName object rest)
  obtain r1 w1 where ro: "sdk_RemoveObject w bucketName (obj_Name object) = (r1, w1)"
    by fastforce
  show ?case
  proof (cases r1)
    case None
    with 3 ro sdk_RemoveObject_status [OF ro] show ?thesis by simp
  next
    case (Some e)
    with 3 ro sdk_RemoveObject_status [OF ro] show ?thesis by auto
  qed
qed

lemma sdk_ListObjects_frame:
  "sdk_ListObjects w b p = (items, w') \<Longrightarrow>
     buckets w' = buckets w \<and> status_rows w' = status_rows w"
  using next_fault_frame [of w]
  by (auto simp add: sdk_ListObjects_def split: prod.splits option.splits)

lemma sdk_RemoveBucket_result:
  assumes "sdk_RemoveBucket w b = (r, w')"
  shows "status_rows w' = status_rows w" "r = None \<Longrightarrow> \<not> bucket_exists w' b"
  using assms next_fault_frame [of w]
  by (auto simp add: sdk_RemoveBucket_def bucket_exists_def delete_conv'
      split: prod.splits option.splits if_splits)

lemma DeleteBucket_result:
  assumes "DeleteBucket w b = (r, w')"
  shows "status_rows w' = status_rows w" "r = None \<Longrightarrow> \<not> bucket_exists w' b"
proof -
  obtain items w1 where l: "sdk_ListObjects w b '''' = (items, w1)" by fastforce
  obtain r2 w2 where ro: "remove_objects w1 b items = (r2, w2)" by fastforce
  obtain r3 w3 where rb: "sdk_RemoveBucket w2 b = (r3, w3)" by fastforce
  have s2: "status_rows w2 = status_rows w"
    using sdk_ListObjects_frame [OF l] remove_objects_status [OF ro] by simp
  show "status_rows w' = status_rows w"
  proof (cases r2)
    case (Some e)
    with assms l ro s2 show ?thesis by (simp add: DeleteBucket_def)
  next
    case None
    with assms l ro rb have "w' = w3" by (simp add: DeleteBucket_def split: option.splits)
    with sdk_RemoveBucket_result(1) [OF rb] s2 show ?thesis by simp
  qed
  show "\<not> bucket_exists w' b" if "r = None"
  proof (cases r2)
    case (Some e)
    with assms l ro that show ?thesis by (simp add: DeleteBucket_def)
  next
    case None
    with assms l ro rb that have "w' = w3" "r3 = None"
      by (simp_all add: DeleteBucket_def split: option.splits)
    with sdk_RemoveBucket_result(2) [OF rb] show ?thesis by simp
  qed
qed

lemma DeleteDocumentStatus_buckets:
  "DeleteDocumentStatus w i f = (r, w') \<Longrightarrow> buckets w' = buckets w"
  using next_fault_frame [of w]
  by (auto simp add: DeleteDocumentStatus_def split: prod.splits option.splits)

lemma DeleteDocumentStatusesForIndex_result:
  assumes "DeleteDocumentStatusesForIndex w i = (r, w')"
  shows "buckets w' = buckets w"
    "r = None \<Longrightarrow> status_rows w' = filter (\<lambda>s. IndexName s \<noteq> i) (status_rows w)"
    "r \<noteq> None \<Longrightarrow> status_rows w' = status_rows w"
  using assms next_fault_frame [of w]
  by (auto simp add: DeleteDocumentStatusesForIndex_def split: prod.splits option.splits)



lemma supported_iff:
  "supported ext \<longleftrightarrow> ext \<in> {''.txt'', ''.md'', ''.json'', ''.csv'', ''.docx'', ''.pdf''}"
  by (auto simp add: supported_def supportedExtensions_def)

section \<open>Creating an index\<close>

text \<open>
  Claim C1, as the code has it. When the write of the metadata object fails after the
  bucket was created and its notification armed, the handler calls \<open>DeleteBucket\<close> and
  answers \<open>InternalServerError\<close> with the error of the metadata write, whatever the
  deletion returns. The final state is the one the deletion leaves: when the deletion
  succeeds the bucket is gone, and an existence check that answers then answers false.
\<close>

theorem HandleCreateRAGIndex_rollback:
  assumes "MinioClient h"
    and "isValidIndexName (unicode_lower rt) (req_Name req)"
    and "BucketExists w (req_Name req) = (Inr False, w1)"
    and "CreateBucket w1 (req_Name req) = (None, w2)"
    and "SetBucketNotification w2 (req_Name req) ''KAGENT'' = (None, w3)"
    and "putIndexMetadata rt w3 (req_Name req)
           \<lparr>Name = req_Name req, Description = req_Description req, CreatedAt = now\<rparr>
           = (Some e, w4)"
  shows "HandleCreateRAGIndex rt h now (Inr req) w
           = (RespondWithError (InternalServerError ''Failed to create index metadata'' (Some e)),
              snd (DeleteBucket w4 (req_Name req)))
       \<and> (fst (DeleteBucket w4 (req_Name req)) = None \<longrightarrow>
             \<not> bucket_exists (snd (DeleteBucket w4 (req_Name req))) (req_Name req)
           \<and> (\<forall>x v. BucketExists (snd (DeleteBucket w4 (req_Name req))) (req_Name req)
                        = (Inr x, v) \<longrightarrow> \<not> x))"
proof -
  obtain d w5 where db: "DeleteBucket w4 (req_Name req) = (d, w5)" by fastforce
  from assms(2) have ne: "req_Name req \<noteq> ''''"
    by (auto simp add: isValidIndexName_def)
  have run: "HandleCreateRAGIndex rt h now (Inr req) w
      = (RespondWithError (InternalServerError ''Failed to create index metadata'' (Some e)), w5)"
    using assms ne db by (simp add: HandleCreateRAGIndex_def Let_def)
  have gone: "\<not> bucket_exists w5 (req_Name req)" if "d = None"
    using DeleteBucket_result(2) [OF db that] .
  have chk: "\<not> x" if "d = None" "BucketExists w5 (req_Name req) = (Inr x, v)" for x v
    using BucketExists_value [OF that(2)] gone [OF that(1)] by simp
  have "\<forall>x v. BucketExists w5 (req_Name req) = (Inr x, v) \<longrightarrow> \<not> x" if "d = None"
    using chk [OF that] by blast
  with run gone db show ?thesis by (cases d) simp_all
qed

lemma sample_name_valid: "isValidIndexName (unicode_lower sample_runtime) ''new''"
  by (simp add: isValidIndexName_def isAlphanumeric_def ToLower_def ascii_lower_def
      sample_runtime_def)

text \<open>
  The theorem at a creation whose metadata write fails (the fifth call, after the check,
  the two calls of \<open>CreateBucket\<close> and the arming) and whose rollback goes through.
\<close>

theorem HandleCreateRAGIndex_rollback_witness:
  "HandleCreateRAGIndex sample_runtime sample_handler 9
       (Inr \<lparr>req_Name = ''new'', req_Description = ''d''\<rparr>)
       (empty_world\<lparr>faults := [None, None, None, None, Some ''put failed'']\<rparr>)
     = (RespondWithError (InternalServerError ''Failed to create index metadata''
          (Some ''failed to store metadata: failed to put object: put failed'')), empty_world)
   \<and> \<not> bucket_exists empty_world ''new''"
proof -
  let ?req = "\<lparr>req_Name = ''new'', req_Description = ''d''\<rparr>"
  let ?w = "empty_world\<lparr>faults := [None, None, None, None, Some ''put failed'']\<rparr>"
  let ?w1 = "empty_world\<lparr>faults := [None, None, None, Some ''put failed'']\<rparr>"
  let ?w2 = "empty_world\<lparr>buckets := [(''new'', [])], faults := [None, Some ''put failed'']\<rparr>"
  let ?w3 = "empty_world\<lparr>buckets := [(''new'', [])], notifications := [(''new'', ''KAGENT'')],
               faults := [Some ''put failed'']\<rparr>"
  let ?w4 = "empty_world\<lparr>buckets := [(''new'', [])], notifications := [(''new'', ''KAGENT'')]\<rparr>"
  have c: "MinioClient sample_handler" by (simp add: sample_handler_def)
  have v: "isValidIndexName (unicode_lower sample_runtime) (req_Name ?req)"
    using sample_name_valid by simp
  have be: "BucketExists ?w (req_Name ?req) = (Inr False, ?w1)"
    by (simp add: BucketExists_def sdk_BucketExists_def next_fault_def bucket_exists_def
        empty_world_def)
  have cb: "CreateBucket ?w1 (req_Name ?req) = (None, ?w2)"
    by (simp add: CreateBucket_def sdk_BucketExists_def sdk_MakeBucket_def next_fault_def
        bucket_exists_def empty_world_def)
  have sn: "SetBucketNotification ?w2 (req_Name ?req) ''KAGENT'' = (None, ?w3)"
    by (simp add: SetBucketNotification_def next_fault_def bucket_exists_def empty_world_def)
  have pm: "putIndexMetadata sample_runtime ?w3 (req_Name ?req)
      \<lparr>Name = req_Name ?req, Description = req_Description ?req, CreatedAt = 9\<rparr>
      = (Some ''failed to store metadata: failed to put object: put failed'', ?w4)"
    by (simp add: putIndexMetadata_def PutObjectBytes_def sdk_PutObject_def next_fault_def
        Errorf_def sample_runtime_def empty_world_def)
  have db: "DeleteBucket ?w4 (req_Name ?req) = (None, empty_world)"
    by (simp add: DeleteBucket_def sdk_ListObjects_def sdk_RemoveBucket_def next_fault_def
        empty_world_def)
  from HandleCreateRAGIndex_rollback [OF c v be cb sn pm] db
  show ?thesis by simp
qed

text \<open>
  Claim C1 as stated promises that the bucket is gone after a failed metadata write. The
  rollback is a single attempt whose error is dropped: when the object store also fails
  the listing that starts \<open>DeleteBucket\<close> (the sixth call), the handler still answers
  with the error of the metadata write, and the bucket is still there.
\<close>

theorem HandleCreateRAGIndex_rollback_fails:
  "HandleCreateRAGIndex sample_runtime sample_handler 9
       (Inr \<lparr>req_Name = ''new'', req_Description = ''d''\<rparr>)
       (empty_world\<lparr>faults :=
          [None, None, None, None, Some ''put failed'', Some ''list failed'']\<rparr>)
     = (RespondWithError (InternalServerError ''Failed to create index metadata''
          (Some ''failed to store metadata: failed to put object: put failed'')),
        empty_world\<lparr>buckets := [(''new'', [])], notifications := [(''new'', ''KAGENT'')]\<rparr>)
   \<and> BucketExists
        (empty_world\<lparr>buckets := [(''new'', [])], notifications := [(''new'', ''KAGENT'')]\<rparr>)
        ''new''
     = (Inr True,
        empty_world\<lparr>buckets := [(''new'', [])], notifications := [(''new'', ''KAGENT'')]\<rparr>)"
  using sample_name_valid
  by (simp add: HandleCreateRAGIndex_def sample_handler_def BucketExists_def
      sdk_BucketExists_def CreateBucket_def sdk_MakeBucket_def SetBucketNotification_def
      putIndexMetadata_def PutObjectBytes_def sdk_PutObject_def DeleteBucket_def
      sdk_ListObjects_def next_fault_def bucket_exists_def Errorf_def sample_runtime_def
      empty_world_def)

section \<open>Listing the indices\<close>

lemma stored_metadata_cong:
  "buckets w' = buckets w \<Longrightarrow> stored_metadata rt w' b = stored_metadata rt w b"
  by (simp add: stored_metadata_def lookup_object_def)

lemma GetObject_result:
  assumes "GetObject w b k = (r, w')"
  shows "buckets w' = buckets w"
    and "faults w = [] \<Longrightarrow> faults w' = []"
    and "r = Inr bytes \<Longrightarrow> \<exists>obj. lookup_object w b k = Some obj \<and> content obj = bytes"
    and "faults w = [] \<Longrightarrow> lookup_object w b k = Some obj \<Longrightarrow> r = Inr (content obj)"
    and "faults w = [] \<Longrightarrow> lookup_object w b k = None \<Longrightarrow> \<exists>e. r = Inl e"
proof -
  obtain e w0 where nf: "next_fault w = (e, w0)" by fastforce
  note fr = next_fault_frame [OF nf]
  have l: "lookup_object w0 b k = lookup_object w b k"
    using fr by (simp add: lookup_object_def)
  show "buckets w' = buckets w"
    using assms nf fr by (auto simp add: GetObject_def sdk_GetObject_def split: option.splits)
  show "faults w' = []" if "faults w = []"
    using assms nf next_fault_faults [OF nf that]
    by (auto simp add: GetObject_def sdk_GetObject_def split: option.splits)
  show "\<exists>obj. lookup_object w b k = Some obj \<and> content obj = bytes" if "r = Inr bytes"
    using assms nf l that
    by (auto simp add: GetObject_def sdk_GetObject_def split: option.splits)
  show "r = Inr (content obj)" if "faults w = []" "lookup_object w b k = Some obj"
    using assms that next_fault_no_faults [OF that(1)]
    by (simp add: GetObject_def sdk_GetObject_def)
  show "\<exists>e. r = Inl e" if "faults w = []" "lookup_object w b k = None"
    using assms that next_fault_no_faults [OF that(1)]
    by (auto simp add: GetObject_def sdk_GetObject_def)
qed

lemma getIndexMetadata_result:
  assumes "getIndexMetadata rt w b = (r, w')"
  shows "buckets w' = buckets w"
    and "faults w = [] \<Longrightarrow> faults w' = []"
    and "r = Inr m \<Longrightarrow> stored_metadata rt w b = Some m"
    and "faults w = [] \<Longrightarrow> stored_metadata rt w b = Some m \<Longrightarrow> r = Inr m"
    and "faults w = [] \<Longrightarrow> stored_metadata rt w b = None \<Longrightarrow> \<exists>e. r = Inl e"
proof -
  obtain g w0 where go: "GetObject w b metadataFile = (g, w0)" by fastforce
  note res = GetObject_result [OF go]
  from assms go have w': "w' = w0"
    by (auto simp add: getIndexMetadata_def split: sum.splits)
  show "buckets w' = buckets w" using res(1) w' by simp
  show "faults w' = []" if "faults w = []" using res(2) [OF that] w' by simp
  show "stored_metadata rt w b = Some m" if "r = Inr m"
  proof -
    from assms go that obtain bytes where g: "g = Inr bytes"
      and u: "json_Unmarshal rt bytes = Inr m"
      by (auto simp add: getIndexMetadata_def split: sum.splits)
    from res(3) [OF g] u show ?thesis by (auto simp add: stored_metadata_def)
  qed
  show "r = Inr m" if "faults w = []" "stored_metadata rt w b = Some m"
  proof -
    from that(2) obtain obj where o: "lookup_object w b metadataFile = Some obj"
      and u: "json_Unmarshal rt (content obj) = Inr m"
      by (auto simp add: stored_metadata_def split: option.splits sum.splits)
    from res(4) [OF that(1) o] have "g = Inr (content obj)" .
    with assms go u show ?thesis by (simp add: getIndexMetadata_def)
  qed
  show "\<exists>e. r = Inl e" if "faults w = []" "stored_metadata rt w b = None"
  proof (cases "lookup_object w b metadataFile")
    case None
    from res(5) [OF that(1) None] obtain e where "g = Inl e" by blast
    with assms go show ?thesis by (auto simp add: getIndexMetadata_def)
  next
    case (Some obj)
    with that(2) obtain e where u: "json_Unmarshal rt (content obj) = Inl e"
      by (auto simp add: stored_metadata_def split: sum.splits)
    from res(4) [OF that(1) Some] have "g = Inr (content obj)" .
    with assms go u show ?thesis by (auto simp add: getIndexMetadata_def)
  qed
qed

text \<open>
  The loop adds, in the order of the buckets, the stored metadata of buckets that have
  one, and nothing else; when no call fails it adds the stored metadata of every such
  bucket.
\<close>

lemma collect_indices_result:
  "collect_indices rt w bs acc = (res, w') \<Longrightarrow>
     \<exists>xs. res = acc @ xs
        \<and> subseq xs (List.map_filter (stored_metadata rt w) bs)
        \<and> (faults w = [] \<longrightarrow> xs = List.map_filter (stored_metadata rt w) bs)"
proof (induction bs arbitrary: w acc)
  case Nil
  then show ?case by simp
next
  case (Cons b bs)
  obtain r w1 where gm: "getIndexMetadata rt w b = (r, w1)" by fastforce
  note res = getIndexMetadata_result [OF gm]
  have sm: "stored_metadata rt w1 = stored_metadata rt w"
    using stored_metadata_cong [OF res(1)] by (rule ext)
  show ?case
  proof (cases r)
    case (Inl e)
    with Cons.prems gm have "collect_indices rt w1 bs acc = (res, w')" by simp
    from Cons.IH [OF this] obtain xs where xs: "res = acc @ xs"
      "subseq xs (List.map_filter (stored_metadata rt w) bs)"
      "faults w1 = [] \<longrightarrow> xs = List.map_filter (stored_metadata rt w) bs"
      unfolding sm by blast
    have none: "stored_metadata rt w b = None" if "faults w = []"
    proof (cases "stored_metadata rt w b")
      case None
      then show ?thesis .
    next
      case (Some m)
      from res(4) [OF that Some] Inl show ?thesis by simp
    qed
    have "subseq xs (List.map_filter (stored_metadata rt w) (b # bs))"
      using xs(2) by (auto split: option.splits intro: list_emb_Cons)
    moreover have "faults w = [] \<longrightarrow> xs = List.map_filter (stored_metadata rt w) (b # bs)"
      using xs(3) res(2) none by simp
    ultimately show ?thesis using xs(1) by blast
  next
    case (Inr m)
    with Cons.prems gm have "collect_indices rt w1 bs (acc @ [m]) = (res, w')" by simp
    from Cons.IH [OF this] obtain xs where xs: "res = (acc @ [m]) @ xs"
      "subseq xs (List.map_filter (stored_metadata rt w) bs)"
      "faults w1 = [] \<longrightarrow> xs = List.map_filter (stored_metadata rt w) bs"
      unfolding sm by blast
    from res(3) [OF Inr] have some: "stored_metadata rt w b = Some m" .
    have "res = acc @ (m # xs)" using xs(1) by simp
    moreover have "subseq (m # xs) (List.map_filter (stored_metadata rt w) (b # bs))"
      using xs(2) some by simp
    moreover have "faults w = [] \<longrightarrow> m # xs = List.map_filter (stored_metadata rt w) (b # bs)"
      using xs(3) res(2) some by simp
    ultimately show ?thesis by blast
  qed
qed

lemma ListBuckets_result:
  assumes "ListBuckets w = (Inr names, w1)"
  shows "names = map fst (buckets w)" "buckets w1 = buckets w"
  using assms next_fault_frame [of w]
  by (auto simp add: ListBuckets_def sdk_ListBuckets_def split: prod.splits option.splits)

lemma next_fault_exact:
  "next_fault w = (case faults w of [] \<Rightarrow> None | f # fs \<Rightarrow> f, w\<lparr>faults := tl (faults w)\<rparr>)"
  by (cases "faults w") (simp_all add: next_fault_def)

lemma fetch_outcomes_Cons:
  "fetch_outcomes fs (Suc n) =
     (case fs of [] \<Rightarrow> None | f # fs' \<Rightarrow> f) # fetch_outcomes (tl fs) n"
  by (cases fs) (simp_all add: fetch_outcomes_def)

lemma fetch_outcomes_0: "fetch_outcomes fs 0 = []"
  by (simp add: fetch_outcomes_def)

text \<open>One fetch uses up one outcome and changes nothing else.\<close>

lemma getIndexMetadata_exact:
  "\<exists>r. getIndexMetadata rt w b = (r, w\<lparr>faults := tl (faults w)\<rparr>)
       \<and> (case (case faults w of [] \<Rightarrow> None | f # fs \<Rightarrow> f) of
            Some e \<Rightarrow> (\<exists>e'. r = Inl e')
          | None \<Rightarrow> (case stored_metadata rt w b of
                       Some m \<Rightarrow> r = Inr m
                     | None \<Rightarrow> (\<exists>e'. r = Inl e')))"
  by (auto simp add: getIndexMetadata_def GetObject_def sdk_GetObject_def next_fault_exact
      stored_metadata_def lookup_object_def split: list.splits option.splits sum.splits)

text \<open>
  The loop under any pending outcomes: the \<open>i\<close>-th bucket is fetched against the
  \<open>i\<close>-th outcome.
\<close>

lemma collect_indices_exact:
  "collect_indices rt w bs acc
     = (acc @ listed_metadata rt w (faults w) bs, w\<lparr>faults := drop (length bs) (faults w)\<rparr>)"
proof (induction bs arbitrary: w acc)
  case Nil
  show ?case by (simp add: listed_metadata_def fetch_outcomes_0)
next
  case (Cons b bs)
  let ?w1 = "w\<lparr>faults := tl (faults w)\<rparr>"
  from getIndexMetadata_exact [of rt w b] obtain r where
    gm: "getIndexMetadata rt w b = (r, ?w1)"
    and r: "case (case faults w of [] \<Rightarrow> None | f # fs \<Rightarrow> f) of
            Some e \<Rightarrow> (\<exists>e'. r = Inl e')
          | None \<Rightarrow> (case stored_metadata rt w b of
                       Some m \<Rightarrow> r = Inr m
                     | None \<Rightarrow> (\<exists>e'. r = Inl e'))"
    by blast
  have sm: "stored_metadata rt ?w1 = stored_metadata rt w"
    by (rule ext) (simp add: stored_metadata_def lookup_object_def)
  have lm: "listed_metadata rt ?w1 fs bs = listed_metadata rt w fs bs" for fs
    unfolding listed_metadata_def sm ..
  have fin: "?w1\<lparr>faults := drop (length bs) (faults ?w1)\<rparr>
      = w\<lparr>faults := drop (length (b # bs)) (faults w)\<rparr>"
    by (simp add: drop_Suc)
  have step: "listed_metadata rt w (faults w) (b # bs)
      = (case r of Inl e \<Rightarrow> [] | Inr m \<Rightarrow> [m]) @ listed_metadata rt w (tl (faults w)) bs"
    using r
    by (auto simp add: listed_metadata_def fetch_outcomes_Cons
        split: list.splits option.splits sum.splits)
  show ?case
  proof (cases r)
    case (Inl e)
    with gm have "collect_indices rt w (b # bs) acc = collect_indices rt ?w1 bs acc" by simp
    also have "\<dots> = (acc @ listed_metadata rt w (tl (faults w)) bs,
        w\<lparr>faults := drop (length (b # bs)) (faults w)\<rparr>)"
      unfolding Cons.IH fin by (simp add: lm)
    finally show ?thesis using step Inl by simp
  next
    case (Inr m)
    with gm have "collect_indices rt w (b # bs) acc = collect_indices rt ?w1 bs (acc @ [m])"
      by simp
    also have "\<dots> = ((acc @ [m]) @ listed_metadata rt w (tl (faults w)) bs,
        w\<lparr>faults := drop (length (b # bs)) (faults w)\<rparr>)"
      unfolding Cons.IH fin by (simp add: lm)
    finally show ?thesis using step Inr by simp
  qed
qed

lemma set_map_filter_eq: "set (List.map_filter g xs) = {y. \<exists>x \<in> set xs. g x = Some y}"
  by (induction xs) (auto split: option.splits)

text \<open>
  A record is listed exactly when it is the stored metadata of a bucket whose fetch does
  not fail.
\<close>

lemma listed_metadata_member:
  "m \<in> set (listed_metadata rt w fs bs) \<longleftrightarrow>
     (\<exists>i < length bs. fetch_outcomes fs (length bs) ! i = None
        \<and> stored_metadata rt w (bs ! i) = Some m)"
proof
  let ?os = "fetch_outcomes fs (length bs)"
  have len: "length ?os = length bs"
    by (simp add: fetch_outcomes_def)
  show "\<exists>i < length bs. ?os ! i = None \<and> stored_metadata rt w (bs ! i) = Some m"
    if "m \<in> set (listed_metadata rt w fs bs)"
    using that len unfolding listed_metadata_def set_map_filter_eq
    by (auto simp add: in_set_zip split: option.splits)
  show "m \<in> set (listed_metadata rt w fs bs)"
    if "\<exists>i < length bs. ?os ! i = None \<and> stored_metadata rt w (bs ! i) = Some m"
  proof -
    from that obtain i where i: "i < length bs" "?os ! i = None"
      "stored_metadata rt w (bs ! i) = Some m" by blast
    from i(1) len have "zip bs ?os ! i \<in> set (zip bs ?os)" by (intro nth_mem) simp
    moreover from i(1) len have "zip bs ?os ! i = (bs ! i, ?os ! i)" by simp
    ultimately have "(bs ! i, None) \<in> set (zip bs ?os)" using i(2) by simp
    with i(3) show ?thesis
      unfolding listed_metadata_def set_map_filter_eq by force
  qed
qed

text \<open>
  Claim C2. When the bucket listing succeeds, the index listing answers success, never
  an error, whatever the fetches do. The buckets are fetched in their order, one call
  each, and the indices reported are exactly the stored metadata of the listed buckets
  whose fetch does not fail and whose reserved object exists and parses: a record is
  reported if and only if it is the stored metadata of such a bucket. A bucket whose
  metadata object is missing or does not parse is skipped. In particular, when no fetch
  fails, the indices are the stored metadata of every listed bucket that has one.
\<close>

theorem HandleListRAGIndices_indices:
  assumes "MinioClient h"
    and "ListBuckets w = (Inr bucketNames, w1)"
  shows "HandleListRAGIndices rt h w
           = (RespondWithJSON 200 (listed_metadata rt w (faults w1) bucketNames)
                ''Successfully listed RAG indices'',
              w1\<lparr>faults := drop (length bucketNames) (faults w1)\<rparr>)
       \<and> bucketNames = map fst (buckets w)
       \<and> (\<forall>m. m \<in> set (listed_metadata rt w (faults w1) bucketNames) \<longleftrightarrow>
              (\<exists>i < length bucketNames.
                 fetch_outcomes (faults w1) (length bucketNames) ! i = None
               \<and> stored_metadata rt w (bucketNames ! i) = Some m))
       \<and> subseq (listed_metadata rt w (faults w1) bucketNames)
            (List.map_filter (stored_metadata rt w) bucketNames)
       \<and> (faults w1 = [] \<longrightarrow>
            listed_metadata rt w (faults w1) bucketNames
              = List.map_filter (stored_metadata rt w) bucketNames)"
proof -
  let ?indices = "listed_metadata rt w (faults w1) bucketNames"
  let ?w2 = "w1\<lparr>faults := drop (length bucketNames) (faults w1)\<rparr>"
  have sm: "stored_metadata rt w1 = stored_metadata rt w"
    using stored_metadata_cong [OF ListBuckets_result(2) [OF assms(2)]] by (rule ext)
  have lm: "listed_metadata rt w1 (faults w1) bucketNames = ?indices"
    unfolding listed_metadata_def sm ..
  have ci: "collect_indices rt w1 bucketNames [] = (?indices, ?w2)"
    unfolding collect_indices_exact lm by simp
  from collect_indices_result [OF ci]
  have sub: "subseq ?indices (List.map_filter (stored_metadata rt w) bucketNames)"
    and all: "faults w1 = [] \<longrightarrow> ?indices = List.map_filter (stored_metadata rt w) bucketNames"
    unfolding sm by simp_all
  have run: "HandleListRAGIndices rt h w
      = (RespondWithJSON 200 ?indices ''Successfully listed RAG indices'', ?w2)"
    using assms ci by (simp add: HandleListRAGIndices_def)
  from run ListBuckets_result(1) [OF assms(2)] sub all listed_metadata_member
  show ?thesis by blast
qed

text \<open>
  The theorem at a world with three buckets: an index, a bucket without metadata and a
  bucket whose metadata does not parse. In the first run a failure is pending that no
  fetch reaches, and the index is reported; in the second the fetch of the index fails,
  and nothing is reported.
\<close>

theorem HandleListRAGIndices_indices_witness:
  "HandleListRAGIndices sample_runtime sample_handler
       (sample_world\<lparr>buckets := buckets sample_world
            @ [(''bad'', [(''.metadata.json'', blob ''garbage'')])],
          faults := [None, None, None, None, Some ''later'']\<rparr>)
     = (RespondWithJSON 200 [\<lparr>Name = ''docs'', Description = ''notes'', CreatedAt = 0\<rparr>]
          ''Successfully listed RAG indices'',
        sample_world\<lparr>buckets := buckets sample_world
            @ [(''bad'', [(''.metadata.json'', blob ''garbage'')])],
          faults := [Some ''later'']\<rparr>)
   \<and> HandleListRAGIndices sample_runtime sample_handler
       (sample_world\<lparr>buckets := buckets sample_world
            @ [(''bad'', [(''.metadata.json'', blob ''garbage'')])],
          faults := [None, Some ''down'']\<rparr>)
     = (RespondWithJSON 200 [] ''Successfully listed RAG indices'',
        sample_world\<lparr>buckets := buckets sample_world
            @ [(''bad'', [(''.metadata.json'', blob ''garbage'')])]\<rparr>)"
proof -
  let ?b = "buckets sample_world @ [(''bad'', [(''.metadata.json'', blob ''garbage'')])]"
  let ?u = "sample_world\<lparr>buckets := ?b, faults := [None, None, None, None, Some ''later'']\<rparr>"
  let ?u1 = "sample_world\<lparr>buckets := ?b, faults := [None, None, None, Some ''later'']\<rparr>"
  let ?v = "sample_world\<lparr>buckets := ?b, faults := [None, Some ''down'']\<rparr>"
  let ?v1 = "sample_world\<lparr>buckets := ?b, faults := [Some ''down'']\<rparr>"
  have c: "MinioClient sample_handler" by (simp add: sample_handler_def)
  have lbu: "ListBuckets ?u = (Inr [''docs'', ''raw'', ''bad''], ?u1)"
    by (simp add: ListBuckets_def sdk_ListBuckets_def next_fault_def sample_world_def)
  have lbv: "ListBuckets ?v = (Inr [''docs'', ''raw'', ''bad''], ?v1)"
    by (simp add: ListBuckets_def sdk_ListBuckets_def next_fault_def sample_world_def)
  have mu: "listed_metadata sample_runtime ?u (faults ?u1) [''docs'', ''raw'', ''bad'']
      = [\<lparr>Name = ''docs'', Description = ''notes'', CreatedAt = 0\<rparr>]"
    by (simp add: listed_metadata_def fetch_outcomes_def stored_metadata_def lookup_object_def
        sample_world_def metadataFile_def sample_runtime_def blob_def)
  have mv: "listed_metadata sample_runtime ?v (faults ?v1) [''docs'', ''raw'', ''bad''] = []"
    by (simp add: listed_metadata_def fetch_outcomes_def stored_metadata_def lookup_object_def
        sample_world_def metadataFile_def sample_runtime_def blob_def)
  from HandleListRAGIndices_indices [OF c lbu, of sample_runtime, THEN conjunct1]
    HandleListRAGIndices_indices [OF c lbv, of sample_runtime, THEN conjunct1]
  show ?thesis unfolding mu mv by (simp add: sample_world_def)
qed

section \<open>Uploading a document\<close>

text \<open>
  Claim C3, as the code has it. An upload whose filename is the reserved metadata name, or
  whose lowercased extension is outside the allowlist, is always rejected and leaves the
  object store and the status table as they were. The handler checks the bucket of the
  index before it looks at the file: the answer is \<open>BadRequest\<close> when the existence
  check finds the bucket, and \<open>NotFound\<close> when it finds none.
\<close>

theorem HandleUploadDocument_rejects:
  assumes "MinioClient h"
    and "fh_Filename f = metadataFile
         \<or> ToLower (unicode_lower rt) (Ext (fh_Filename f))
              \<notin> {''.txt'', ''.md'', ''.json'', ''.csv'', ''.docx'', ''.pdf''}"
    and "HandleUploadDocument rt h now uuid (Inr indexName) parseForm (Inr f) w = (resp, w')"
  shows "(\<exists>e. resp = RespondWithError e)
       \<and> buckets w' = buckets w \<and> status_rows w' = status_rows w
       \<and> ((\<exists>w1. BucketExists w indexName = (Inr True, w1)) \<longrightarrow>
             (\<exists>msg e. resp = RespondWithError (BadRequestError msg e)))
       \<and> ((\<exists>w1. BucketExists w indexName = (Inr False, w1)) \<longrightarrow>
             resp = RespondWithError (NotFoundError ''RAG index not found'' None))"
proof -
  obtain r w1 where be: "BucketExists w indexName = (r, w1)" by fastforce
  note frame = BucketExists_frame [OF be]
  show ?thesis
  proof (cases r)
    case (Inl e)
    with assms(1,3) be
    have "resp = RespondWithError (InternalServerError ''Failed to check index'' (Some e))"
      "w' = w1"
      by (simp_all add: HandleUploadDocument_def)
    with be Inl frame show ?thesis by simp
  next
    case r: (Inr exists)
    show ?thesis
    proof (cases "exists")
      case False
      with assms(1,3) be r
      have "resp = RespondWithError (NotFoundError ''RAG index not found'' None)" "w' = w1"
        by (simp_all add: HandleUploadDocument_def)
      with be r False frame show ?thesis by simp
    next
      case True
      have "(\<exists>msg e. resp = RespondWithError (BadRequestError msg e)) \<and> w' = w1"
      proof (cases parseForm)
        case (Some e)
        with assms(1,3) be r True show ?thesis
          by (auto simp add: HandleUploadDocument_def)
      next
        case None
        show ?thesis
        proof (cases "fh_Filename f = metadataFile")
          case True
          with assms(1,3) be r \<open>exists\<close> None show ?thesis
            by (auto simp add: HandleUploadDocument_def)
        next
          case False
          with assms(2) have "\<not> supported (ToLower (unicode_lower rt) (Ext (fh_Filename f)))"
            by (simp only: supported_iff) simp
          with assms(1,3) be r \<open>exists\<close> None False show ?thesis
            by (auto simp add: HandleUploadDocument_def Let_def)
        qed
      qed
      with be r True frame show ?thesis by auto
    qed
  qed
qed

text \<open>The theorem at an upload of the reserved name to an existing index.\<close>

theorem HandleUploadDocument_rejects_witness:
  "HandleUploadDocument sample_runtime sample_handler 9 ''u1'' (Inr ''docs'') None
       (Inr \<lparr>fh_Filename = ''.metadata.json'', fh_Size = 2, fh_ContentType = '''',
             fh_content = ''xy''\<rparr>) sample_world
     = (RespondWithError (BadRequestError ''Cannot upload file with reserved name'' None),
        sample_world)
   \<and> (\<exists>msg e. RespondWithError (BadRequestError ''Cannot upload file with reserved name'' None)
         = (RespondWithError (BadRequestError msg e) :: RAGDocument response))"
proof -
  let ?f = "\<lparr>fh_Filename = ''.metadata.json'', fh_Size = 2, fh_ContentType = '''',
             fh_content = ''xy''\<rparr>"
  have c: "MinioClient sample_handler" by (simp add: sample_handler_def)
  have b: "fh_Filename ?f = metadataFile
         \<or> ToLower (unicode_lower sample_runtime) (Ext (fh_Filename ?f))
              \<notin> {''.txt'', ''.md'', ''.json'', ''.csv'', ''.docx'', ''.pdf''}"
    by (simp add: metadataFile_def)
  have be: "BucketExists sample_world ''docs'' = (Inr True, sample_world)"
    by (simp add: BucketExists_def sdk_BucketExists_def next_fault_def bucket_exists_def
        sample_world_def)
  have run: "HandleUploadDocument sample_runtime sample_handler 9 ''u1'' (Inr ''docs'') None
       (Inr ?f) sample_world
     = (RespondWithError (BadRequestError ''Cannot upload file with reserved name'' None),
        sample_world)"
    using be by (simp add: HandleUploadDocument_def sample_handler_def metadataFile_def)
  from HandleUploadDocument_rejects [OF c b run] be run show ?thesis by blast
qed

text \<open>
  Claim C3 as stated promises \<open>BadRequest\<close> whether or not the bucket exists. An upload
  of the reserved name to an index without a bucket answers \<open>NotFound\<close>.
\<close>

theorem HandleUploadDocument_absent_index:
  "HandleUploadDocument sample_runtime sample_handler 9 ''u1'' (Inr ''nope'') None
       (Inr \<lparr>fh_Filename = ''.metadata.json'', fh_Size = 2, fh_ContentType = '''',
             fh_content = ''xy''\<rparr>) sample_world
     = (RespondWithError (NotFoundError ''RAG index not found'' None), sample_world)"
  by (simp add: HandleUploadDocument_def sample_handler_def sample_world_def BucketExists_def
      sdk_BucketExists_def next_fault_def bucket_exists_def)

section \<open>Deleting a document\<close>

text \<open>
  Claim C4, as the code has it. A request to delete a document, on a handler with a
  client, ends in exactly one of five ways, each with its cause. The existence check
  fails: \<open>InternalServerError\<close> with the error of the check. The check finds no bucket of
  the index: \<open>NotFound\<close>. The bucket exists and the filename is the reserved metadata
  name: \<open>BadRequest\<close>. The bucket exists, the filename is not reserved and the deletion of
  the blob fails: \<open>InternalServerError\<close> with the error of the deletion. Otherwise
  success: the blob is gone from the bucket, and the final state is the one the deletion
  of the status row leaves, whether that deletion fails or not. There is no other
  outcome; \<open>NotFound\<close> is never caused by a missing blob.
\<close>

theorem HandleDeleteDocument_outcomes:
  assumes "MinioClient h"
    and "HandleDeleteDocument h (Inr indexName) (Inr filename) w = (resp, w')"
  shows "(\<exists>e w1. BucketExists w indexName = (Inl e, w1) \<and> w' = w1
            \<and> resp = RespondWithError (InternalServerError ''Failed to check index'' (Some e)))
       \<or> (\<exists>w1. BucketExists w indexName = (Inr False, w1) \<and> \<not> bucket_exists w indexName
            \<and> w' = w1
            \<and> resp = RespondWithError (NotFoundError ''RAG index not found'' None))
       \<or> (\<exists>w1. BucketExists w indexName = (Inr True, w1) \<and> filename = metadataFile
            \<and> w' = w1
            \<and> resp = RespondWithError (BadRequestError ''Cannot delete reserved file'' None))
       \<or> (\<exists>e w1 w2. BucketExists w indexName = (Inr True, w1) \<and> filename \<noteq> metadataFile
            \<and> DeleteFile w1 indexName filename = (Some e, w2) \<and> w' = w2
            \<and> resp = RespondWithError
                 (InternalServerError ''Failed to delete document'' (Some e)))
       \<or> (\<exists>w1 w2. BucketExists w indexName = (Inr True, w1) \<and> bucket_exists w indexName
            \<and> filename \<noteq> metadataFile
            \<and> DeleteFile w1 indexName filename = (None, w2)
            \<and> w' = snd (DeleteDocumentStatus w2 indexName filename)
            \<and> lookup_object w' indexName filename = None
            \<and> resp = RespondWithJSON 200 () ''Successfully deleted document'')"
proof -
  obtain r w1 where be: "BucketExists w indexName = (r, w1)" by fastforce
  show ?thesis
  proof (cases r)
    case (Inl e)
    with assms be
    have "resp = RespondWithError (InternalServerError ''Failed to check index'' (Some e))"
      "w' = w1"
      by (simp_all add: HandleDeleteDocument_def)
    with be Inl show ?thesis by simp
  next
    case r: (Inr exists)
    with be have bex: "BucketExists w indexName = (Inr exists, w1)" by simp
    then have ex: "exists = bucket_exists w indexName" by (rule BucketExists_value)
    show ?thesis
    proof (cases "exists")
      case False
      with assms bex
      have "resp = RespondWithError (NotFoundError ''RAG index not found'' None)" "w' = w1"
        by (simp_all add: HandleDeleteDocument_def)
      with bex False ex show ?thesis by simp
    next
      case exists: True
      show ?thesis
      proof (cases "filename = metadataFile")
        case True
        with assms bex exists
        have "resp = RespondWithError (BadRequestError ''Cannot delete reserved file'' None)"
          "w' = w1"
          by (simp_all add: HandleDeleteDocument_def)
        with bex exists True show ?thesis by simp
      next
        case False
        obtain d w2 where df: "DeleteFile w1 indexName filename = (d, w2)" by fastforce
        show ?thesis
        proof (cases d)
          case (Some e)
          with assms bex exists False df
          have "resp = RespondWithError
                  (InternalServerError ''Failed to delete document'' (Some e))" "w' = w2"
            by (simp_all add: HandleDeleteDocument_def)
          with bex exists False df Some show ?thesis by simp
        next
          case None
          obtain s w3 where ds: "DeleteDocumentStatus w2 indexName filename = (s, w3)"
            by fastforce
          from DeleteFile_result(2) [OF df None]
          have gone: "lookup_object w3 indexName filename = None"
            by (simp only: lookup_object_cong [OF DeleteDocumentStatus_buckets [OF ds]])
          from assms bex exists False df None ds
          have res: "resp = RespondWithJSON 200 () ''Successfully deleted document''" "w' = w3"
            by (simp_all add: HandleDeleteDocument_def)
          have "BucketExists w indexName = (Inr True, w1) \<and> bucket_exists w indexName
             \<and> filename \<noteq> metadataFile
             \<and> DeleteFile w1 indexName filename = (None, w2)
             \<and> w' = snd (DeleteDocumentStatus w2 indexName filename)
             \<and> lookup_object w' indexName filename = None
             \<and> resp = RespondWithJSON 200 () ''Successfully deleted document''"
            using bex exists ex False df None ds gone res by simp
          then show ?thesis by blast
        qed
      qed
    qed
  qed
qed

text \<open>
  The theorem at three requests: a document that is deleted, the reserved name, and a
  document whose deletion the object store fails (the second call).
\<close>

theorem HandleDeleteDocument_outcomes_witness:
  "HandleDeleteDocument sample_handler (Inr ''docs'') (Inr ''a.txt'') sample_world
     = (RespondWithJSON 200 () ''Successfully deleted document'',
        sample_world\<lparr>buckets :=
            [(''docs'', [(''.metadata.json'', blob ''docs;notes''), (''b.md'', blob ''text'')]),
             (''raw'', [(''x.bin'', blob ''01'')])],
          status_rows := []\<rparr>)
   \<and> HandleDeleteDocument sample_handler (Inr ''docs'') (Inr ''.metadata.json'') sample_world
     = (RespondWithError (BadRequestError ''Cannot delete reserved file'' None), sample_world)
   \<and> HandleDeleteDocument sample_handler (Inr ''docs'') (Inr ''a.txt'')
        (sample_world\<lparr>faults := [None, Some ''disk'']\<rparr>)
     = (RespondWithError (InternalServerError ''Failed to delete document''
          (Some ''failed to delete file: disk'')), sample_world)"
proof -
  let ?after = "sample_world\<lparr>buckets :=
            [(''docs'', [(''.metadata.json'', blob ''docs;notes''), (''b.md'', blob ''text'')]),
             (''raw'', [(''x.bin'', blob ''01'')])]\<rparr>"
  let ?v = "sample_world\<lparr>faults := [None, Some ''disk'']\<rparr>"
  let ?v1 = "sample_world\<lparr>faults := [Some ''disk'']\<rparr>"
  have c: "MinioClient sample_handler" by (simp add: sample_handler_def)
  have be: "BucketExists sample_world ''docs'' = (Inr True, sample_world)"
    by (simp add: BucketExists_def sdk_BucketExists_def next_fault_def bucket_exists_def
        sample_world_def)
  have bev: "BucketExists ?v ''docs'' = (Inr True, ?v1)"
    by (simp add: BucketExists_def sdk_BucketExists_def next_fault_def bucket_exists_def
        sample_world_def)
  have df: "DeleteFile sample_world ''docs'' ''a.txt'' = (None, ?after)"
    by (simp add: DeleteFile_def sdk_RemoveObject_def next_fault_def sample_world_def)
  have dfv: "DeleteFile ?v1 ''docs'' ''a.txt'' = (Some ''failed to delete file: disk'', sample_world)"
    by (simp add: DeleteFile_def sdk_RemoveObject_def next_fault_def Errorf_def sample_world_def)
  have ds: "DeleteDocumentStatus ?after ''docs'' ''a.txt''
      = (None, sample_world\<lparr>buckets :=
            [(''docs'', [(''.metadata.json'', blob ''docs;notes''), (''b.md'', blob ''text'')]),
             (''raw'', [(''x.bin'', blob ''01'')])],
          status_rows := []\<rparr>)"
    by (simp add: DeleteDocumentStatus_def next_fault_def same_document_def sample_world_def)
  have n: "''a.txt'' \<noteq> metadataFile" "''.metadata.json'' = metadataFile"
    by (simp_all add: metadataFile_def)
  have r1: "HandleDeleteDocument sample_handler (Inr ''docs'') (Inr ''a.txt'') sample_world
      = (fst (HandleDeleteDocument sample_handler (Inr ''docs'') (Inr ''a.txt'') sample_world),
         snd (HandleDeleteDocument sample_handler (Inr ''docs'') (Inr ''a.txt'') sample_world))"
    by simp
  have r2: "HandleDeleteDocument sample_handler (Inr ''docs'') (Inr ''.metadata.json'') sample_world
      = (fst (HandleDeleteDocument sample_handler (Inr ''docs'') (Inr ''.metadata.json'')
                sample_world),
         snd (HandleDeleteDocument sample_handler (Inr ''docs'') (Inr ''.metadata.json'')
                sample_world))"
    by simp
  have r3: "HandleDeleteDocument sample_handler (Inr ''docs'') (Inr ''a.txt'') ?v
      = (fst (HandleDeleteDocument sample_handler (Inr ''docs'') (Inr ''a.txt'') ?v),
         snd (HandleDeleteDocument sample_handler (Inr ''docs'') (Inr ''a.txt'') ?v))"
    by simp
  from HandleDeleteDocument_outcomes [OF c r1] be df ds n(1)
  have a: "HandleDeleteDocument sample_handler (Inr ''docs'') (Inr ''a.txt'') sample_world
     = (RespondWithJSON 200 () ''Successfully deleted document'',
        sample_world\<lparr>buckets :=
            [(''docs'', [(''.metadata.json'', blob ''docs;notes''), (''b.md'', blob ''text'')]),
             (''raw'', [(''x.bin'', blob ''01'')])],
          status_rows := []\<rparr>)"
    by (auto simp add: prod_eq_iff)
  from HandleDeleteDocument_outcomes [OF c r2] be n
  have b: "HandleDeleteDocument sample_handler (Inr ''docs'') (Inr ''.metadata.json'') sample_world
     = (RespondWithError (BadRequestError ''Cannot delete reserved file'' None), sample_world)"
    by (auto simp add: prod_eq_iff)
  from HandleDeleteDocument_outcomes [OF c r3] bev dfv n(1)
  have d: "HandleDeleteDocument sample_handler (Inr ''docs'') (Inr ''a.txt'') ?v
     = (RespondWithError (InternalServerError ''Failed to delete document''
          (Some ''failed to delete file: disk'')), sample_world)"
    by (auto simp add: prod_eq_iff)
  from a b d show ?thesis by simp
qed

text \<open>
  Claim C4 as stated excludes \<open>NotFound\<close>. The handler checks the bucket first: deleting
  a document of an index that has no bucket answers \<open>NotFound\<close>.
\<close>

theorem HandleDeleteDocument_absent_index:
  "HandleDeleteDocument sample_handler (Inr ''nope'') (Inr ''a.txt'') sample_world
     = (RespondWithError (NotFoundError ''RAG index not found'' None), sample_world)"
  by (simp add: HandleDeleteDocument_def sample_handler_def sample_world_def BucketExists_def
      sdk_BucketExists_def next_fault_def bucket_exists_def)

section \<open>Updating the status of a document\<close>

lemma upsert_rows:
  "list_ex (same_document i f)
     (map (\<lambda>s. if same_document i f s then s\<lparr>Status := st, ErrorMsg := msg\<rparr> else s) rows)
     = list_ex (same_document i f) rows"
  "filter (\<lambda>s. \<not> same_document i f s)
     (map (\<lambda>s. if same_document i f s then s\<lparr>Status := st, ErrorMsg := msg\<rparr> else s) rows)
     = filter (\<lambda>s. \<not> same_document i f s) rows"
  "list_all (\<lambda>s. same_document i f s \<longrightarrow> Status s = st \<and> ErrorMsg s = msg)
     (map (\<lambda>s. if same_document i f s then s\<lparr>Status := st, ErrorMsg := msg\<rparr> else s) rows)"
  by (induction rows) (auto simp add: same_document_def)

lemma UpdateDocumentStatus_result:
  assumes "UpdateDocumentStatus w i f st msg = (r, w')"
  shows "buckets w' = buckets w"
    and "r \<noteq> None \<Longrightarrow> status_rows w' = status_rows w"
    and "r = None \<Longrightarrow>
           list_ex (same_document i f) (status_rows w')
         \<and> list_all (\<lambda>s. same_document i f s \<longrightarrow> Status s = st \<and> ErrorMsg s = msg)
             (status_rows w')
         \<and> filter (\<lambda>s. \<not> same_document i f s) (status_rows w')
             = filter (\<lambda>s. \<not> same_document i f s) (status_rows w)"
proof -
  obtain e w0 where nf: "next_fault w = (e, w0)" by fastforce
  note fr = next_fault_frame [OF nf]
  show "buckets w' = buckets w"
    using assms nf fr by (auto simp add: UpdateDocumentStatus_def split: option.splits if_splits)
  show "status_rows w' = status_rows w" if "r \<noteq> None"
    using assms nf fr that
    by (auto simp add: UpdateDocumentStatus_def split: option.splits if_splits)
  show "list_ex (same_document i f) (status_rows w')
         \<and> list_all (\<lambda>s. same_document i f s \<longrightarrow> Status s = st \<and> ErrorMsg s = msg)
             (status_rows w')
         \<and> filter (\<lambda>s. \<not> same_document i f s) (status_rows w')
             = filter (\<lambda>s. \<not> same_document i f s) (status_rows w)" if "r = None"
  proof (cases "list_ex (same_document i f) (status_rows w)")
    case True
    with assms nf fr that
    have rows: "status_rows w' =
        map (\<lambda>s. if same_document i f s then s\<lparr>Status := st, ErrorMsg := msg\<rparr> else s)
          (status_rows w)"
      by (auto simp add: UpdateDocumentStatus_def split: option.splits)
    from True show ?thesis
      unfolding rows by (simp add: upsert_rows)
  next
    case False
    with assms nf fr that
    have rows: "status_rows w' = status_rows w @
        [\<lparr>ID = '''', IndexName = i, Filename = f, Status = st, ErrorMsg = msg\<rparr>]"
      by (auto simp add: UpdateDocumentStatus_def split: option.splits)
    from False have "list_all (\<lambda>s. \<not> same_document i f s) (status_rows w)"
      by (simp add: list_ex_iff list_all_iff)
    then have "list_all (\<lambda>s. same_document i f s \<longrightarrow> Status s = st \<and> ErrorMsg s = msg)
        (status_rows w)"
      by (simp add: list_all_iff)
    then show ?thesis
      unfolding rows by (simp add: same_document_def)
  qed
qed

lemma UpdateDocumentStatus_buckets_irrelevant:
  "fst (UpdateDocumentStatus (w\<lparr>buckets := B\<rparr>) i f st msg)
     = fst (UpdateDocumentStatus w i f st msg)"
  by (simp add: UpdateDocumentStatus_def next_fault_def split: list.splits option.splits)

text \<open>
  Claim C6. For a request with a non-empty status, the handler answers
  \<open>InternalServerError\<close> exactly when the upsert of the status store returns an error,
  and then carries that error and leaves the rows as they were; otherwise it answers
  success, a row of (index, filename) exists with the new status and error message, and
  the rows of other documents are as before. The object store is neither changed nor
  consulted: the response is the same whatever the buckets hold.
\<close>

theorem HandleUpdateDocumentStatus_outcomes:
  assumes "st_Status req \<noteq> ''''"
    and "HandleUpdateDocumentStatus (Inr indexName) (Inr filename) (Inr req) w = (resp, w')"
  shows "buckets w' = buckets w
       \<and> (\<forall>B. fst (HandleUpdateDocumentStatus (Inr indexName) (Inr filename) (Inr req)
                      (w\<lparr>buckets := B\<rparr>)) = resp)
       \<and> ((fst (UpdateDocumentStatus w indexName filename (st_Status req) (st_ErrorMsg req)) = None
              \<and> resp = RespondWithJSON 200 () ''Successfully updated document status''
              \<and> list_ex (same_document indexName filename) (status_rows w')
              \<and> list_all (\<lambda>s. same_document indexName filename s \<longrightarrow>
                              Status s = st_Status req \<and> ErrorMsg s = st_ErrorMsg req)
                   (status_rows w')
              \<and> filter (\<lambda>s. \<not> same_document indexName filename s) (status_rows w')
                   = filter (\<lambda>s. \<not> same_document indexName filename s) (status_rows w))
          \<or> (\<exists>e. fst (UpdateDocumentStatus w indexName filename (st_Status req) (st_ErrorMsg req))
                    = Some e
                \<and> resp = RespondWithError
                     (InternalServerError ''Failed to update document status'' (Some e))
                \<and> status_rows w' = status_rows w))"
proof -
  let ?upd = "\<lambda>w. UpdateDocumentStatus w indexName filename (st_Status req) (st_ErrorMsg req)"
  obtain r w1 where up: "?upd w = (r, w1)" by fastforce
  note res = UpdateDocumentStatus_result [OF up]
  have run: "\<And>v. HandleUpdateDocumentStatus (Inr indexName) (Inr filename) (Inr req) v
      = (case ?upd v of
           (Some err, w1) \<Rightarrow>
             (RespondWithError
                (InternalServerError ''Failed to update document status'' (Some err)), w1)
         | (None, w1) \<Rightarrow>
             (RespondWithJSON 200 () ''Successfully updated document status'', w1))"
    using assms(1) by (simp add: HandleUpdateDocumentStatus_def)
  have resp: "resp = (case r of
        Some err \<Rightarrow> RespondWithError
          (InternalServerError ''Failed to update document status'' (Some err))
      | None \<Rightarrow> RespondWithJSON 200 () ''Successfully updated document status'')"
    and w': "w' = w1"
    using assms(2) up by (auto simp add: run split: option.splits)
  have indep: "fst (HandleUpdateDocumentStatus (Inr indexName) (Inr filename) (Inr req)
      (w\<lparr>buckets := B\<rparr>)) = resp" for B
  proof -
    obtain r' w1' where up': "?upd (w\<lparr>buckets := B\<rparr>) = (r', w1')" by fastforce
    have "fst (?upd (w\<lparr>buckets := B\<rparr>)) = fst (?upd w)"
      by (rule UpdateDocumentStatus_buckets_irrelevant)
    with up up' have "r' = r" by simp
    with up' resp show ?thesis by (simp add: run split: option.splits)
  qed
  show ?thesis
  proof (cases r)
    case None
    with res(1,3) resp w' up indep show ?thesis by simp
  next
    case (Some e)
    with res(1,2) resp w' up indep show ?thesis by simp
  qed
qed

text \<open>
  The theorem at a status update for a document that has no blob in the bucket, once
  with a working status store and once with a failing one.
\<close>

theorem HandleUpdateDocumentStatus_outcomes_witness:
  "HandleUpdateDocumentStatus (Inr ''docs'') (Inr ''ghost.txt'')
       (Inr \<lparr>st_Status = ''failed'', st_ErrorMsg = ''boom''\<rparr>) sample_world
     = (RespondWithJSON 200 () ''Successfully updated document status'',
        sample_world\<lparr>status_rows := status_rows sample_world @
          [\<lparr>ID = '''', IndexName = ''docs'', Filename = ''ghost.txt'', Status = ''failed'',
            ErrorMsg = ''boom''\<rparr>]\<rparr>)
   \<and> lookup_object sample_world ''docs'' ''ghost.txt'' = None
   \<and> buckets (sample_world\<lparr>status_rows := status_rows sample_world @
          [\<lparr>ID = '''', IndexName = ''docs'', Filename = ''ghost.txt'', Status = ''failed'',
            ErrorMsg = ''boom''\<rparr>]\<rparr>) = buckets sample_world"
proof -
  let ?req = "\<lparr>st_Status = ''failed'', st_ErrorMsg = ''boom''\<rparr>"
  have s: "st_Status ?req \<noteq> ''''" by simp
  have run: "HandleUpdateDocumentStatus (Inr ''docs'') (Inr ''ghost.txt'') (Inr ?req) sample_world
     = (RespondWithJSON 200 () ''Successfully updated document status'',
        sample_world\<lparr>status_rows := status_rows sample_world @
          [\<lparr>ID = '''', IndexName = ''docs'', Filename = ''ghost.txt'', Status = ''failed'',
            ErrorMsg = ''boom''\<rparr>]\<rparr>)"
    by (simp add: HandleUpdateDocumentStatus_def UpdateDocumentStatus_def next_fault_def
        sample_world_def same_document_def)
  have l: "lookup_object sample_world ''docs'' ''ghost.txt'' = None"
    by (simp add: lookup_object_def sample_world_def)
  from HandleUpdateDocumentStatus_outcomes [OF s run] run l show ?thesis by blast
qed

section \<open>Deleting an index\<close>

text \<open>
  Claim C7, as the code has it. The handler decides existence by the bucket alone. When
  the existence check finds no bucket of that name, \<open>DeleteIndex\<close> answers \<open>NotFound\<close>.
  When it finds the bucket and the deletion of the bucket (with all its objects)
  succeeds, the handler goes on to delete the status rows of the index and reports
  success whatever that second step returns: the final state is the one the deletion of
  the status rows leaves, the bucket is gone from it, and when the deletion of the rows
  fails they all stay behind.
\<close>

theorem HandleDeleteRAGIndex_outcomes:
  assumes "MinioClient h"
  shows "(BucketExists w indexName = (Inr False, w1) \<longrightarrow>
            HandleDeleteRAGIndex h (Inr indexName) w
              = (RespondWithError (NotFoundError ''RAG index not found'' None), w1))
       \<and> (BucketExists w indexName = (Inr True, w1) \<and> DeleteBucket w1 indexName = (None, w2) \<longrightarrow>
            HandleDeleteRAGIndex h (Inr indexName) w
              = (RespondWithJSON 200 () ''Successfully deleted RAG index'',
                 snd (DeleteDocumentStatusesForIndex w2 indexName))
            \<and> \<not> bucket_exists (snd (DeleteDocumentStatusesForIndex w2 indexName)) indexName
            \<and> (fst (DeleteDocumentStatusesForIndex w2 indexName) = None \<longrightarrow>
                  status_rows (snd (DeleteDocumentStatusesForIndex w2 indexName))
                    = filter (\<lambda>s. IndexName s \<noteq> indexName) (status_rows w))
            \<and> (fst (DeleteDocumentStatusesForIndex w2 indexName) \<noteq> None \<longrightarrow>
                  status_rows (snd (DeleteDocumentStatusesForIndex w2 indexName))
                    = status_rows w))"
proof (intro conjI impI)
  assume "BucketExists w indexName = (Inr False, w1)"
  with assms show "HandleDeleteRAGIndex h (Inr indexName) w
      = (RespondWithError (NotFoundError ''RAG index not found'' None), w1)"
    by (simp add: HandleDeleteRAGIndex_def)
next
  assume a: "BucketExists w indexName = (Inr True, w1) \<and> DeleteBucket w1 indexName = (None, w2)"
  obtain r w3 where ds: "DeleteDocumentStatusesForIndex w2 indexName = (r, w3)" by fastforce
  from a have be: "BucketExists w indexName = (Inr True, w1)"
    and db: "DeleteBucket w1 indexName = (None, w2)" by simp_all
  have rows: "status_rows w2 = status_rows w"
    using BucketExists_frame(2) [OF be] DeleteBucket_result(1) [OF db] by simp
  have gone: "\<not> bucket_exists w2 indexName"
    using DeleteBucket_result(2) [OF db] by simp
  from assms be db ds
  show "HandleDeleteRAGIndex h (Inr indexName) w
      = (RespondWithJSON 200 () ''Successfully deleted RAG index'',
         snd (DeleteDocumentStatusesForIndex w2 indexName))"
    by (simp add: HandleDeleteRAGIndex_def)
  show "\<not> bucket_exists (snd (DeleteDocumentStatusesForIndex w2 indexName)) indexName"
    using gone bucket_exists_cong [OF DeleteDocumentStatusesForIndex_result(1) [OF ds]] ds
    by simp
  show "status_rows (snd (DeleteDocumentStatusesForIndex w2 indexName))
      = filter (\<lambda>s. IndexName s \<noteq> indexName) (status_rows w)"
    if "fst (DeleteDocumentStatusesForIndex w2 indexName) = None"
    using that ds DeleteDocumentStatusesForIndex_result(2) [OF ds] rows by simp
  show "status_rows (snd (DeleteDocumentStatusesForIndex w2 indexName)) = status_rows w"
    if "fst (DeleteDocumentStatusesForIndex w2 indexName) \<noteq> None"
    using that ds DeleteDocumentStatusesForIndex_result(3) [OF ds] rows by simp
qed

text \<open>
  The theorem at two inputs: an index whose status cleanup fails after the bucket is
  deleted (the sixth call, after the check, the listing, three removals and the removal of
  the bucket), and a name without a bucket.
\<close>

theorem HandleDeleteRAGIndex_outcomes_witness:
  "HandleDeleteRAGIndex sample_handler (Inr ''docs'')
       (sample_world\<lparr>faults := [None, None, None, None, None, None, Some ''db down'']\<rparr>)
     = (RespondWithJSON 200 () ''Successfully deleted RAG index'',
        sample_world\<lparr>buckets := [(''raw'', [(''x.bin'', blob ''01'')])], notifications := [],
                      faults := []\<rparr>)
   \<and> HandleDeleteRAGIndex sample_handler (Inr ''nope'') sample_world
     = (RespondWithError (NotFoundError ''RAG index not found'' None), sample_world)"
proof -
  let ?w = "sample_world\<lparr>faults := [None, None, None, None, None, None, Some ''db down'']\<rparr>"
  let ?w1 = "sample_world\<lparr>faults := [None, None, None, None, None, Some ''db down'']\<rparr>"
  let ?w2 = "sample_world\<lparr>buckets := [(''raw'', [(''x.bin'', blob ''01'')])], notifications := [],
                      faults := [Some ''db down'']\<rparr>"
  have c: "MinioClient sample_handler" by (simp add: sample_handler_def)
  have be: "BucketExists ?w ''docs'' = (Inr True, ?w1)"
    by (simp add: BucketExists_def sdk_BucketExists_def next_fault_def bucket_exists_def
        sample_world_def)
  have db: "DeleteBucket ?w1 ''docs'' = (None, ?w2)"
    by (simp add: DeleteBucket_def sdk_ListObjects_def sdk_RemoveObject_def sdk_RemoveBucket_def
        next_fault_def sample_world_def object_info_def)
  have ds: "DeleteDocumentStatusesForIndex ?w2 ''docs''
      = (Some ''db down'', sample_world\<lparr>buckets := [(''raw'', [(''x.bin'', blob ''01'')])],
            notifications := [], faults := []\<rparr>)"
    by (simp add: DeleteDocumentStatusesForIndex_def next_fault_def sample_world_def)
  have be2: "BucketExists sample_world ''nope'' = (Inr False, sample_world)"
    by (simp add: BucketExists_def sdk_BucketExists_def next_fault_def bucket_exists_def
        sample_world_def)
  from HandleDeleteRAGIndex_outcomes [OF c, of ?w "''docs''" ?w1 ?w2] be db ds
    HandleDeleteRAGIndex_outcomes [OF c, of sample_world "''nope''" sample_world] be2
  show ?thesis by simp
qed

text \<open>
  Claim C7 as stated promises \<open>NotFound\<close> for every absent index, and by the invariant of
  the specification a bucket without a metadata object is not an index. The handler never
  reads the metadata: it deletes such a bucket and reports success.
\<close>

theorem HandleDeleteRAGIndex_without_metadata:
  "\<not> index_exists sample_runtime sample_world ''raw''
   \<and> HandleDeleteRAGIndex sample_handler (Inr ''raw'') sample_world
     = (RespondWithJSON 200 () ''Successfully deleted RAG index'',
        sample_world\<lparr>buckets :=
          [(''docs'', [(''.metadata.json'', blob ''docs;notes''), (''a.txt'', blob ''hello''),
                      (''b.md'', blob ''text'')])]\<rparr>)"
  by (simp add: index_exists_def stored_metadata_def lookup_object_def metadataFile_def
      HandleDeleteRAGIndex_def sample_handler_def BucketExists_def sdk_BucketExists_def
      bucket_exists_def DeleteBucket_def sdk_ListObjects_def sdk_RemoveObject_def
      sdk_RemoveBucket_def DeleteDocumentStatusesForIndex_def next_fault_def object_info_def
      sample_world_def)

section \<open>Uploading a document that is accepted\<close>



section \<open>Listing the documents of an index\<close>









section \<open>Updating an index\<close>

lemma putIndexMetadata_result:
  assumes "putIndexMetadata rt w b index = (r, w')"
  shows "r = None \<Longrightarrow>
           \<exists>obj. lookup_object w' b metadataFile = Some obj
                \<and> json_Marshal rt index = Inr (content obj)"
    and "r \<noteq> None \<Longrightarrow> buckets w' = buckets w"
proof -
  show "\<exists>obj. lookup_object w' b metadataFile = Some obj
      \<and> json_Marshal rt index = Inr (content obj)" if "r = None"
  proof (cases "json_Marshal rt index")
    case (Inl e)
    with assms that show ?thesis by (simp add: putIndexMetadata_def)
  next
    case (Inr bytes)
    obtain p w0 where po: "PutObjectBytes w b metadataFile bytes ''application/json'' = (p, w0)"
      by fastforce
    with assms that Inr have "p = None" "w' = w0"
      by (auto simp add: putIndexMetadata_def split: option.splits)
    with PutObjectBytes_result(2) [OF po] Inr show ?thesis by auto
  qed
  show "buckets w' = buckets w" if "r \<noteq> None"
  proof (cases "json_Marshal rt index")
    case (Inl e)
    with assms show ?thesis by (simp add: putIndexMetadata_def)
  next
    case (Inr bytes)
    obtain p w0 where po: "PutObjectBytes w b metadataFile bytes ''application/json'' = (p, w0)"
      by fastforce
    with assms that Inr have "p \<noteq> None" "w' = w0"
      by (auto simp add: putIndexMetadata_def split: option.splits)
    with PutObjectBytes_result(3) [OF po] show ?thesis by simp
  qed
qed

text \<open>
  Claim C10. When the metadata of the index is read as \<open>m\<close>, the update ends in one of two
  ways. Either it answers success, and then the reserved object of the bucket holds the
  encoding of an index whose name and creation time are those of \<open>m\<close> and whose
  description is the requested one; or the write fails, the answer is
  \<open>InternalServerError\<close>, and the buckets are as they were.
\<close>

theorem HandleUpdateRAGIndex_frame:
  assumes "MinioClient h"
    and "getIndexMetadata rt w indexName = (Inr m, w1)"
    and "HandleUpdateRAGIndex rt h (Inr indexName) (Inr req) w = (resp, w')"
  shows "stored_metadata rt w indexName = Some m
       \<and> ((\<exists>written obj.
              resp = RespondWithJSON 200 written ''Successfully updated RAG index''
            \<and> Name written = Name m \<and> CreatedAt written = CreatedAt m
            \<and> Description written = upd_Description req
            \<and> lookup_object w' indexName metadataFile = Some obj
            \<and> json_Marshal rt written = Inr (content obj))
          \<or> ((\<exists>e. resp = RespondWithError (InternalServerError ''Failed to update index'' (Some e)))
              \<and> buckets w' = buckets w))"
proof -
  let ?new = "m\<lparr>Description := upd_Description req\<rparr>"
  note gm = getIndexMetadata_result [OF assms(2)]
  obtain r w2 where pm: "putIndexMetadata rt w1 indexName ?new = (r, w2)" by fastforce
  note res = putIndexMetadata_result [OF pm]
  from gm(3) have sm: "stored_metadata rt w indexName = Some m" by simp
  show ?thesis
  proof (cases r)
    case None
    with assms pm
    have "resp = RespondWithJSON 200 ?new ''Successfully updated RAG index''" "w' = w2"
      by (simp_all add: HandleUpdateRAGIndex_def Let_def)
    moreover from res(1) [OF None] obtain obj
      where "lookup_object w2 indexName metadataFile = Some obj"
        "json_Marshal rt ?new = Inr (content obj)" by blast
    moreover have "Name ?new = Name m" "CreatedAt ?new = CreatedAt m"
      "Description ?new = upd_Description req" by simp_all
    ultimately show ?thesis using sm by blast
  next
    case (Some e)
    with assms pm
    have "resp = RespondWithError (InternalServerError ''Failed to update index'' (Some e))"
      "w' = w2"
      by (simp_all add: HandleUpdateRAGIndex_def Let_def)
    moreover from res(2) Some gm(1) have "buckets w2 = buckets w" by simp
    ultimately show ?thesis using sm by blast
  qed
qed

text \<open>The theorem at an update of the sample index.\<close>

theorem HandleUpdateRAGIndex_frame_witness:
  "HandleUpdateRAGIndex sample_runtime sample_handler (Inr ''docs'')
       (Inr \<lparr>upd_Description = ''new text''\<rparr>) sample_world
     = (RespondWithJSON 200 \<lparr>Name = ''docs'', Description = ''new text'', CreatedAt = 0\<rparr>
          ''Successfully updated RAG index'',
        sample_world\<lparr>buckets :=
          [(''docs'', [(''.metadata.json'',
                       \<lparr>content = ''docs;new text'', content_size = 13,
                        content_type = ''application/json'', last_modified = 7\<rparr>),
                      (''a.txt'', blob ''hello''), (''b.md'', blob ''text'')]),
           (''raw'', [(''x.bin'', blob ''01'')])]\<rparr>)
   \<and> stored_metadata sample_runtime sample_world ''docs''
     = Some \<lparr>Name = ''docs'', Description = ''notes'', CreatedAt = 0\<rparr>"
proof -
  have c: "MinioClient sample_handler" by (simp add: sample_handler_def)
  have gm: "getIndexMetadata sample_runtime sample_world ''docs''
      = (Inr \<lparr>Name = ''docs'', Description = ''notes'', CreatedAt = 0\<rparr>, sample_world)"
    by (simp add: getIndexMetadata_def GetObject_def sdk_GetObject_def next_fault_def
        lookup_object_def sample_world_def metadataFile_def sample_runtime_def blob_def)
  have run: "HandleUpdateRAGIndex sample_runtime sample_handler (Inr ''docs'')
       (Inr \<lparr>upd_Description = ''new text''\<rparr>) sample_world
     = (RespondWithJSON 200 \<lparr>Name = ''docs'', Description = ''new text'', CreatedAt = 0\<rparr>
          ''Successfully updated RAG index'',
        sample_world\<lparr>buckets :=
          [(''docs'', [(''.metadata.json'',
                       \<lparr>content = ''docs;new text'', content_size = 13,
                        content_type = ''application/json'', last_modified = 7\<rparr>),
                      (''a.txt'', blob ''hello''), (''b.md'', blob ''text'')]),
           (''raw'', [(''x.bin'', blob ''01'')])]\<rparr>)"
    by (simp add: HandleUpdateRAGIndex_def sample_handler_def gm putIndexMetadata_def)
      (simp add: PutObjectBytes_def sdk_PutObject_def next_fault_def sample_world_def
        metadataFile_def sample_runtime_def)
  from HandleUpdateRAGIndex_frame [OF c gm run] run show ?thesis by blast
qed

end
